theory Spec2Isabelle
  imports Main "HOL-Library.Word"
begin

unbundle bit_operations_syntax

section \<open>Common types\<close>

text \<open>
  \<open>ULONG\<close> is the kernel's 32-bit unsigned word (\<open>types.h\<close>); arithmetic wraps.
  A C pointer into one of the kernel's fixed arrays is the index of the element, and
  \<open>None\<close> is \<open>NULL\<close>. An output parameter \<open>ULONG *p\<close> is passed as
  \<open>Some v\<close> (a cell holding \<open>v\<close>) or \<open>None\<close> (\<open>NULL\<close>), and the cell's
  content after the call is part of the result.
\<close>

type_synonym ULONG = "32 word"
type_synonym ptr = "nat option"

text \<open>The content of a cell, or \<open>d\<close> when there is no cell.\<close>

definition cell_value :: "ULONG option \<Rightarrow> ULONG \<Rightarrow> ULONG" where
  "cell_value c d = (case c of None \<Rightarrow> d | Some v \<Rightarrow> v)"

text \<open>
  Return codes of \<open>gxkernel.h\<close>. \<open>OK\<close> is the value 0. The sources also return
  \<open>ERR_BADPARAM\<close>, \<open>ERR_SEMFULL\<close>, \<open>ERR_NOMEM\<close>, \<open>ERR_NOTSUPPORTED\<close>,
  \<open>ERR_NOTACTIVE\<close>, \<open>ERR_BADTCB\<close>, \<open>ERR_NORESOURCE\<close> and \<open>ERR_INTERNAL\<close>,
  whose \<open>#define\<close> is in no header of the repository; they are kept as further
  non-zero codes.
\<close>

datatype kerr =
    OK
  | ERR_TIMEOUT | ERR_OBJDEL | ERR_OBJID | ERR_OBJNF
  | ERR_NOTCB | ERR_NOSTK | ERR_TINYSTK | ERR_PRIOR | ERR_ACTIVE | ERR_NACTIVE
  | ERR_SUSP | ERR_NOTSUSP | ERR_SETPRI | ERR_REGNUM
  | ERR_NOQCB | ERR_NOMGB | ERR_QFULL | ERR_NOMSG
  | ERR_NOEVS
  | ERR_NOSCB | ERR_NOSEM
  | ERR_ILLTICKS | ERR_NOTIMERS | ERR_BADTMID
  | ERR_BADPARAM | ERR_SEMFULL | ERR_NOMEM | ERR_NOTSUPPORTED | ERR_NOTACTIVE | ERR_BADTCB
  | ERR_NORESOURCE | ERR_INTERNAL

text \<open>
  The host primitives the generic hardware layer calls. \<open>malloc_ok\<close> says whether
  \<open>malloc\<close> returns memory, \<open>init_ok\<close> whether \<open>pthread_mutex_init\<close>,
  \<open>pthread_cond_init\<close> and \<open>sem_init\<close> succeed. The blocking primitives are
  modelled for a caller that runs alone: no other task signals while it waits. Then an
  untimed wait on something unavailable never returns (the result \<open>None\<close>), and a
  timed wait on it ends with \<open>ETIMEDOUT\<close>.
\<close>

record platform =
  malloc_ok :: bool
  init_ok :: bool

definition MAX_TASK :: nat where "MAX_TASK = 64"
definition MAX_Q :: nat where "MAX_Q = 32"
definition MAX_BUF :: ULONG where "MAX_BUF = 2048"

section \<open>Events (kernel/ipc/event.c, event\_hw\_generic.c)\<close>

definition EV_NOWAIT :: ULONG where "EV_NOWAIT = 0x00000001"
definition EV_WAIT :: ULONG where "EV_WAIT = 0x00000000"
definition EV_ANY :: ULONG where "EV_ANY = 0x00000002"
definition EV_ALL :: ULONG where "EV_ALL = 0x00000000"

definition EV_POOL_MAGIC :: ULONG where "EV_POOL_MAGIC = 0x4556"
definition EV_STATE_FREE :: ULONG where "EV_STATE_FREE = 0"
definition EV_STATE_WAITING :: ULONG where "EV_STATE_WAITING = 1"
definition EV_STATE_SIGNALED :: ULONG where "EV_STATE_SIGNALED = 2"
definition EV_INFINITE_TIMEOUT :: ULONG where "EV_INFINITE_TIMEOUT = 0xFFFFFFFF"

definition EV_STAT_SEND :: ULONG where "EV_STAT_SEND = 1"
definition EV_STAT_RECEIVE :: ULONG where "EV_STAT_RECEIVE = 2"
definition EV_STAT_WAIT_START :: ULONG where "EV_STAT_WAIT_START = 3"
definition EV_STAT_WAIT_COMPLETE :: ULONG where "EV_STAT_WAIT_COMPLETE = 4"
definition EV_STAT_TIMEOUT :: ULONG where "EV_STAT_TIMEOUT = 5"

text \<open>\<open>EV_GENERIC_CONTEXT\<close>: the mutex and the condition variable carry no data.\<close>

record ev_generic_context =
  evc_signaled :: bool
  evc_waiting :: bool
  evc_signal_count :: ULONG
  evc_wait_count :: ULONG

record ev_ecb =
  ecb_magic :: ULONG
  ecb_task_id :: ULONG
  ecb_state :: ULONG
  ecb_pending_events :: ULONG
  ecb_waiting_events :: ULONG
  ecb_received_events :: ULONG
  ecb_wait_condition :: ULONG
  ecb_wait_flags :: ULONG
  ecb_timeout_ticks :: ULONG
  ecb_wait_start_time :: ULONG
  ecb_events_sent :: ULONG
  ecb_events_received :: ULONG
  ecb_wait_count :: ULONG
  ecb_timeout_count :: ULONG
  ecb_hw_context :: "ev_generic_context option"

record ev_pool =
  evp_magic :: ULONG
  evp_max_tasks :: ULONG
  evp_active_count :: ULONG
  event_blocks :: "nat \<Rightarrow> ev_ecb"

record ev_hw_generic_state =
  evh_initialized :: ULONG
  evh_total_events_created :: ULONG
  evh_total_signals :: ULONG
  evh_total_waits :: ULONG

text \<open>
  \<open>EV_STATE\<close> together with the static state of the generic hardware layer.
  \<open>ev_hw_ops\<close> is the pointer \<open>hw_ops\<close>: \<open>False\<close> is \<open>NULL\<close>, \<open>True\<close> is
  \<open>&ev_hw_generic_ops\<close> (the table chosen when \<open>STM32F4\<close> is not defined).
\<close>

record ev_state =
  ev_pool :: ev_pool
  ev_hw_ops :: bool
  ev_initialized :: ULONG
  ev_total_events_sent :: ULONG
  ev_total_events_received :: ULONG
  ev_hw :: ev_hw_generic_state

definition ev_ecb_zero :: ev_ecb where
  "ev_ecb_zero = \<lparr> ecb_magic = 0, ecb_task_id = 0, ecb_state = 0, ecb_pending_events = 0,
     ecb_waiting_events = 0, ecb_received_events = 0, ecb_wait_condition = 0,
     ecb_wait_flags = 0, ecb_timeout_ticks = 0, ecb_wait_start_time = 0,
     ecb_events_sent = 0, ecb_events_received = 0, ecb_wait_count = 0,
     ecb_timeout_count = 0, ecb_hw_context = None \<rparr>"

text \<open>\<open>EV_STATE ev_global_state = {0}\<close>.\<close>

definition ev_global_state_zero :: ev_state where
  "ev_global_state_zero = \<lparr> ev_pool = \<lparr> evp_magic = 0, evp_max_tasks = 0,
       evp_active_count = 0, event_blocks = (\<lambda>i. ev_ecb_zero) \<rparr>,
     ev_hw_ops = False, ev_initialized = 0, ev_total_events_sent = 0,
     ev_total_events_received = 0,
     ev_hw = \<lparr> evh_initialized = 0, evh_total_events_created = 0,
       evh_total_signals = 0, evh_total_waits = 0 \<rparr> \<rparr>"

definition ECB :: "ev_state \<Rightarrow> nat \<Rightarrow> ev_ecb" where
  "ECB s i = event_blocks (ev_pool s) i"

definition ECB_upd :: "nat \<Rightarrow> (ev_ecb \<Rightarrow> ev_ecb) \<Rightarrow> ev_state \<Rightarrow> ev_state" where
  "ECB_upd i f s =
     (let old = event_blocks (ev_pool s); v = f (old i)
      in s\<lparr> ev_pool := (ev_pool s)\<lparr> event_blocks := old(i := v) \<rparr> \<rparr>)"

definition EV_IS_VALID_ECB :: "ev_state \<Rightarrow> ptr \<Rightarrow> bool" where
  "EV_IS_VALID_ECB s p = (case p of None \<Rightarrow> False | Some i \<Rightarrow> ecb_magic (ECB s i) = EV_POOL_MAGIC)"

definition EV_IS_VALID_EVENT_MASK :: "ULONG \<Rightarrow> bool" where
  "EV_IS_VALID_EVENT_MASK evmask \<longleftrightarrow> evmask \<noteq> 0 \<and> evmask \<le> 0xFFFFFFFF"

definition EV_IS_VALID_TASK_ID :: "ULONG \<Rightarrow> bool" where
  "EV_IS_VALID_TASK_ID tid \<longleftrightarrow> unat tid < MAX_TASK"

definition EV_IS_VALID_FLAGS :: "ULONG \<Rightarrow> bool" where
  "EV_IS_VALID_FLAGS flags \<longleftrightarrow> flags AND NOT (EV_ANY OR EV_NOWAIT) = 0"

definition ev_pool_init :: "ev_state \<Rightarrow> ev_state" where
  "ev_pool_init s =
     s\<lparr> ev_pool := \<lparr> evp_magic = EV_POOL_MAGIC, evp_max_tasks = of_nat MAX_TASK,
        evp_active_count = 0,
        event_blocks = (\<lambda>i. if i < MAX_TASK
           then ev_ecb_zero\<lparr> ecb_magic := EV_POOL_MAGIC, ecb_task_id := of_nat i,
                  ecb_state := EV_STATE_FREE \<rparr>
           else ev_ecb_zero) \<rparr> \<rparr>"

definition ev_pool_get_task_ecb :: "ULONG \<Rightarrow> ptr" where
  "ev_pool_get_task_ecb task_id =
     (if \<not> EV_IS_VALID_TASK_ID task_id then None else Some (unat task_id))"

definition ev_pool_validate_task_id :: "ULONG \<Rightarrow> kerr" where
  "ev_pool_validate_task_id task_id = (if EV_IS_VALID_TASK_ID task_id then OK else ERR_OBJID)"

text \<open>
  \<open>ev_check_conditions\<close> reads \<open>pending\<close> and \<open>waiting\<close> and then answers 0 unless
  the block is in state \<open>EV_STATE_WAITING\<close>. The ALL test is a C comparison (0 or 1), the
  ANY test is the masked word itself.
\<close>

definition ev_check_conditions :: "ev_state \<Rightarrow> nat \<Rightarrow> ULONG" where
  "ev_check_conditions s i =
     (let ecb = ECB s i; pending = ecb_pending_events ecb; waiting = ecb_waiting_events ecb in
      if \<not> EV_IS_VALID_ECB s (Some i) \<or> ecb_state ecb \<noteq> EV_STATE_WAITING then 0
      else if ecb_wait_condition ecb = EV_ALL
        then (if pending AND waiting = waiting then 1 else 0)
        else pending AND waiting)"

definition ev_update_statistics :: "nat \<Rightarrow> ULONG \<Rightarrow> ev_state \<Rightarrow> ev_state" where
  "ev_update_statistics i operation s =
     (if \<not> EV_IS_VALID_ECB s (Some i) then s
      else if operation = EV_STAT_SEND then
        (ECB_upd i (\<lambda>e. e\<lparr> ecb_events_sent := ecb_events_sent e + 1 \<rparr>) s)
          \<lparr> ev_total_events_sent := ev_total_events_sent s + 1 \<rparr>
      else if operation = EV_STAT_RECEIVE then
        (ECB_upd i (\<lambda>e. e\<lparr> ecb_events_received := ecb_events_received e + 1 \<rparr>) s)
          \<lparr> ev_total_events_received := ev_total_events_received s + 1 \<rparr>
      else if operation = EV_STAT_WAIT_START then
        ECB_upd i (\<lambda>e. e\<lparr> ecb_wait_count := ecb_wait_count e + 1 \<rparr>) s
      else if operation = EV_STAT_TIMEOUT then
        ECB_upd i (\<lambda>e. e\<lparr> ecb_timeout_count := ecb_timeout_count e + 1 \<rparr>) s
      else s)"

definition ev_update_pending :: "nat \<Rightarrow> ULONG \<Rightarrow> ev_state \<Rightarrow> kerr \<times> ev_state" where
  "ev_update_pending i new_events s =
     (if \<not> EV_IS_VALID_ECB s (Some i) then (ERR_BADPARAM, s)
      else (OK, ev_update_statistics i EV_STAT_SEND
              (ECB_upd i (\<lambda>e. e\<lparr> ecb_pending_events := ecb_pending_events e OR new_events \<rparr>) s)))"

definition ev_clear_received :: "nat \<Rightarrow> ULONG \<Rightarrow> ev_state \<Rightarrow> kerr \<times> ev_state" where
  "ev_clear_received i events_to_clear s =
     (if \<not> EV_IS_VALID_ECB s (Some i) then (ERR_BADPARAM, s)
      else (OK, ECB_upd i (\<lambda>e. e\<lparr> ecb_pending_events := ecb_pending_events e AND NOT events_to_clear,
                                   ecb_received_events := events_to_clear \<rparr>) s))"

text \<open>\<open>ev_get_current_task_id\<close> and \<open>ev_get_current_time\<close> are placeholders returning 0.\<close>

definition ev_get_current_task_id :: ULONG where "ev_get_current_task_id = 0"
definition ev_get_current_time :: ULONG where "ev_get_current_time = 0"

subsection \<open>Generic hardware layer\<close>

definition ev_hw_generic_init :: "platform \<Rightarrow> ev_state \<Rightarrow> kerr \<times> ev_state" where
  "ev_hw_generic_init pf s =
     (if evh_initialized (ev_hw s) \<noteq> 0 then (OK, s)
      else if \<not> init_ok pf then (ERR_NOTSUPPORTED, s)
      else (OK, s\<lparr> ev_hw := \<lparr> evh_initialized = 1, evh_total_events_created = 0,
                               evh_total_signals = 0, evh_total_waits = 0 \<rparr> \<rparr>))"

definition ev_hw_generic_create_event :: "platform \<Rightarrow> nat \<Rightarrow> ev_state \<Rightarrow> kerr \<times> ev_state" where
  "ev_hw_generic_create_event pf i s =
     (if \<not> malloc_ok pf then (ERR_NOMEM, s)
      else if \<not> init_ok pf then (ERR_NOTSUPPORTED, s)
      else (OK, (ECB_upd i (\<lambda>e. e\<lparr> ecb_hw_context :=
                   Some \<lparr> evc_signaled = False, evc_waiting = False,
                          evc_signal_count = 0, evc_wait_count = 0 \<rparr> \<rparr>) s)
                 \<lparr> ev_hw := (ev_hw s)\<lparr> evh_total_events_created :=
                      evh_total_events_created (ev_hw s) + 1 \<rparr> \<rparr>))"

definition ev_hw_generic_signal_event :: "nat \<Rightarrow> ev_state \<Rightarrow> kerr \<times> ev_state" where
  "ev_hw_generic_signal_event i s =
     (case ecb_hw_context (ECB s i) of
        None \<Rightarrow> (ERR_BADPARAM, s)
      | Some ctx \<Rightarrow>
          (OK, (ECB_upd i (\<lambda>e. e\<lparr> ecb_hw_context :=
                  Some (ctx\<lparr> evc_signaled := True,
                             evc_signal_count := evc_signal_count ctx + 1 \<rparr>) \<rparr>) s)
                \<lparr> ev_hw := (ev_hw s)\<lparr> evh_total_signals := evh_total_signals (ev_hw s) + 1 \<rparr> \<rparr>))"

text \<open>
  \<open>ev_hw_generic_wait_event\<close>: an event already signaled is consumed at once. Otherwise
  the infinite branch (taken only for \<open>timeout = EV_INFINITE_TIMEOUT\<close>) loops on
  \<open>pthread_cond_wait\<close> and, for a caller that runs alone, never returns; every other
  timeout, 0 included, takes \<open>pthread_cond_timedwait\<close>, which ends with \<open>ETIMEDOUT\<close>.
\<close>

definition ev_hw_generic_wait_event :: "nat \<Rightarrow> ULONG \<Rightarrow> ev_state \<Rightarrow> (kerr \<times> ev_state) option" where
  "ev_hw_generic_wait_event i timeout s =
     (case ecb_hw_context (ECB s i) of
        None \<Rightarrow> Some (ERR_BADPARAM, s)
      | Some ctx \<Rightarrow>
          (let s1 = s\<lparr> ev_hw := (ev_hw s)\<lparr> evh_total_waits := evh_total_waits (ev_hw s) + 1 \<rparr> \<rparr>;
               ctx1 = ctx\<lparr> evc_waiting := True, evc_wait_count := evc_wait_count ctx + 1 \<rparr>
           in if evc_signaled ctx1
              then Some (OK, ECB_upd i (\<lambda>e. e\<lparr> ecb_hw_context :=
                             Some (ctx1\<lparr> evc_signaled := False, evc_waiting := False \<rparr>) \<rparr>) s1)
              else if timeout = EV_INFINITE_TIMEOUT then None
              else Some (ERR_TIMEOUT, ECB_upd i (\<lambda>e. e\<lparr> ecb_hw_context :=
                             Some (ctx1\<lparr> evc_waiting := False \<rparr>) \<rparr>) s1)))"

definition ev_hw_generic_clear_event :: "nat \<Rightarrow> ev_state \<Rightarrow> kerr \<times> ev_state" where
  "ev_hw_generic_clear_event i s =
     (case ecb_hw_context (ECB s i) of
        None \<Rightarrow> (ERR_BADPARAM, s)
      | Some ctx \<Rightarrow> (OK, ECB_upd i (\<lambda>e. e\<lparr> ecb_hw_context := Some (ctx\<lparr> evc_signaled := False \<rparr>) \<rparr>) s))"

definition ev_hw_init :: "platform \<Rightarrow> ev_state \<Rightarrow> kerr \<times> ev_state" where
  "ev_hw_init pf s = ev_hw_generic_init pf (s\<lparr> ev_hw_ops := True \<rparr>)"

subsection \<open>Wait management and the public calls\<close>

definition ev_start_wait :: "platform \<Rightarrow> nat \<Rightarrow> ULONG \<Rightarrow> ULONG \<Rightarrow> ULONG \<Rightarrow> ev_state \<Rightarrow> kerr \<times> ev_state" where
  "ev_start_wait pf i events flags timeout s =
     (if \<not> EV_IS_VALID_ECB s (Some i) then (ERR_BADPARAM, s)
      else
        (let s1 = ECB_upd i (\<lambda>e. e\<lparr> ecb_waiting_events := events,
                     ecb_wait_condition := (if flags AND EV_ANY \<noteq> 0 then EV_ANY else EV_ALL),
                     ecb_wait_flags := flags,
                     ecb_timeout_ticks := timeout,
                     ecb_wait_start_time := ev_get_current_time,
                     ecb_state := EV_STATE_WAITING \<rparr>) s;
             (error, s2) = (if ev_hw_ops s1 then ev_hw_generic_create_event pf i s1 else (OK, s1))
         in if error \<noteq> OK then (error, s2)
            else (OK, ev_update_statistics i EV_STAT_WAIT_START s2)))"

definition ev_complete_wait :: "nat \<Rightarrow> ULONG option \<Rightarrow> ev_state \<Rightarrow> kerr \<times> ULONG option \<times> ev_state" where
  "ev_complete_wait i events_received s =
     (if \<not> EV_IS_VALID_ECB s (Some i) \<or> events_received = None then (ERR_BADPARAM, events_received, s)
      else (OK, Some (ecb_received_events (ECB s i)),
            ev_update_statistics i EV_STAT_WAIT_COMPLETE
              (ECB_upd i (\<lambda>e. e\<lparr> ecb_waiting_events := 0, ecb_wait_condition := 0,
                   ecb_wait_flags := 0, ecb_timeout_ticks := 0, ecb_state := EV_STATE_FREE \<rparr>) s)))"

definition ev_cancel_wait :: "nat \<Rightarrow> ev_state \<Rightarrow> kerr \<times> ev_state" where
  "ev_cancel_wait i s =
     (if \<not> EV_IS_VALID_ECB s (Some i) then (ERR_BADPARAM, s)
      else
        (let s1 = (if ev_hw_ops s then snd (ev_hw_generic_clear_event i s) else s)
         in (OK, ECB_upd i (\<lambda>e. e\<lparr> ecb_waiting_events := 0, ecb_wait_condition := 0,
                   ecb_wait_flags := 0, ecb_timeout_ticks := 0, ecb_state := EV_STATE_FREE \<rparr>) s1)))"

definition ev_validate_events :: "ULONG \<Rightarrow> kerr" where
  "ev_validate_events events = (if EV_IS_VALID_EVENT_MASK events then OK else ERR_BADPARAM)"

definition ev_validate_flags :: "ULONG \<Rightarrow> kerr" where
  "ev_validate_flags flags = (if EV_IS_VALID_FLAGS flags then OK else ERR_BADPARAM)"

text \<open>\<open>ev_init_once\<close> ignores the result of \<open>ev_hw_init\<close> and always returns 0.\<close>

definition ev_init_once :: "platform \<Rightarrow> ev_state \<Rightarrow> kerr \<times> ev_state" where
  "ev_init_once pf s =
     (if ev_initialized s \<noteq> 0 then (OK, s)
      else
        (let s1 = ev_pool_init s;
             s2 = snd (ev_hw_init pf s1)
         in (OK, s2\<lparr> ev_total_events_sent := 0, ev_total_events_received := 0,
                     ev_initialized := 1 \<rparr>)))"

text \<open>
  \<open>ev_receive(events, flags, timeout, events_r)\<close>. The result is \<open>None\<close> when the call
  never returns, otherwise the return code, the cell \<open>*events_r\<close> and the new state.
\<close>

definition ev_receive ::
  "platform \<Rightarrow> ULONG \<Rightarrow> ULONG \<Rightarrow> ULONG \<Rightarrow> ULONG option \<Rightarrow> ev_state
     \<Rightarrow> (kerr \<times> ULONG option \<times> ev_state) option" where
  "ev_receive pf events flags timeout events_r s0 =
     (let (error0, s) = ev_init_once pf s0 in
      if error0 \<noteq> OK then Some (error0, events_r, s)
      else if events_r = None then Some (ERR_BADPARAM, events_r, s)
      else if ev_validate_events events \<noteq> OK then Some (ev_validate_events events, events_r, s)
      else if ev_validate_flags flags \<noteq> OK then Some (ev_validate_flags flags, events_r, s)
      else
        (case ev_pool_get_task_ecb ev_get_current_task_id of
           None \<Rightarrow> Some (ERR_OBJID, events_r, s)
         | Some i \<Rightarrow>
            (let s1 = ECB_upd i (\<lambda>e. e\<lparr> ecb_waiting_events := events,
                        ecb_wait_condition := (if flags AND EV_ANY \<noteq> 0 then EV_ANY else EV_ALL) \<rparr>) s;
                 events_satisfied = ev_check_conditions s1 i
             in if events_satisfied \<noteq> 0 then
                  (let r = ecb_pending_events (ECB s1 i) AND events;
                       s2 = (if ecb_wait_condition (ECB s1 i) = EV_ALL
                             then snd (ev_clear_received i events s1)
                             else snd (ev_clear_received i r s1))
                   in Some (OK, Some r, ev_update_statistics i EV_STAT_RECEIVE s2))
                else if flags AND EV_NOWAIT \<noteq> 0 then Some (ERR_NOEVS, Some 0, s1)
                else
                  (let (error, s2) = ev_start_wait pf i events flags timeout s1 in
                   if error \<noteq> OK then Some (error, events_r, s2)
                   else
                     (case (if ev_hw_ops s2 then ev_hw_generic_wait_event i timeout s2
                            else Some (OK, s2)) of
                        None \<Rightarrow> None
                      | Some (werror, s3) \<Rightarrow>
                          if ev_hw_ops s2 \<and> werror = ERR_TIMEOUT
                          then Some (ERR_TIMEOUT, events_r,
                                 snd (ev_cancel_wait i (ev_update_statistics i EV_STAT_TIMEOUT s3)))
                          else Some (ev_complete_wait i events_r s3))))))"

definition ev_send :: "platform \<Rightarrow> ULONG \<Rightarrow> ULONG \<Rightarrow> ev_state \<Rightarrow> kerr \<times> ev_state" where
  "ev_send pf tid events s0 =
     (let (error0, s) = ev_init_once pf s0 in
      if error0 \<noteq> OK then (error0, s)
      else if ev_pool_validate_task_id tid \<noteq> OK then (ev_pool_validate_task_id tid, s)
      else if ev_validate_events events \<noteq> OK then (ev_validate_events events, s)
      else
        (case ev_pool_get_task_ecb tid of
           None \<Rightarrow> (ERR_OBJID, s)
         | Some i \<Rightarrow>
            (let s1 = snd (ev_update_pending i events s) in
             if ecb_state (ECB s1 i) = EV_STATE_WAITING \<and> ev_check_conditions s1 i \<noteq> 0 then
               (let s2 = (if ev_hw_ops s1 then snd (ev_hw_generic_signal_event i s1) else s1);
                    w = ecb_waiting_events (ECB s2 i);
                    r = ecb_pending_events (ECB s2 i) AND w;
                    s3 = ECB_upd i (\<lambda>e. e\<lparr> ecb_received_events := r \<rparr>) s2;
                    s4 = (if ecb_wait_condition (ECB s3 i) = EV_ALL
                          then snd (ev_clear_received i w s3)
                          else snd (ev_clear_received i r s3))
                in (OK, ECB_upd i (\<lambda>e. e\<lparr> ecb_state := EV_STATE_SIGNALED \<rparr>) s4))
             else (OK, s1))))"


section \<open>Semaphores (kernel/ipc/semaphore.c, semaphore\_hw\_generic.c)\<close>

definition SM_MAX_SEMAPHORES :: nat where "SM_MAX_SEMAPHORES = 64"
definition SM_INVALID_ID :: ULONG where "SM_INVALID_ID = 0"
definition SM_POOL_MAGIC :: ULONG where "SM_POOL_MAGIC = 0x534D"
definition SM_MAX_COUNT :: ULONG where "SM_MAX_COUNT = 0x7FFFFFFF"
definition SM_STATE_FREE :: ULONG where "SM_STATE_FREE = 0"
definition SM_STATE_ACTIVE :: ULONG where "SM_STATE_ACTIVE = 1"
definition SM_STATE_DELETED :: ULONG where "SM_STATE_DELETED = 2"

text \<open>The flag values of \<open>gxkernel.h\<close>, which the \<open>#ifndef\<close> fallbacks of
  \<open>semaphore.h\<close> do not override.\<close>

definition SM_GLOBAL :: ULONG where "SM_GLOBAL = 0x00000001"
definition SM_LOCAL :: ULONG where "SM_LOCAL = 0x00000000"
definition SM_PRIOR :: ULONG where "SM_PRIOR = 0x00000002"
definition SM_FIFO :: ULONG where "SM_FIFO = 0x00000000"
definition SM_NOWAIT :: ULONG where "SM_NOWAIT = 0x00000001"
definition SM_WAIT :: ULONG where "SM_WAIT = 0x00000000"

definition SM_INFINITE_TIMEOUT :: ULONG where "SM_INFINITE_TIMEOUT = 0xFFFFFFFF"
definition SM_NO_TIMEOUT :: ULONG where "SM_NO_TIMEOUT = 0"

definition SM_STAT_WAIT :: ULONG where "SM_STAT_WAIT = 1"
definition SM_STAT_SIGNAL :: ULONG where "SM_STAT_SIGNAL = 2"
definition SM_STAT_TIMEOUT :: ULONG where "SM_STAT_TIMEOUT = 3"

text \<open>\<open>SEM_VALUE_MAX\<close> of the host's POSIX semaphores.\<close>

definition SEM_VALUE_MAX :: int where "SEM_VALUE_MAX = 2147483647"

record sm_wait_node =
  wn_task_id :: ULONG
  wn_priority :: ULONG
  wn_wait_start :: ULONG

text \<open>\<open>SM_GENERIC_CONTEXT\<close>; \<open>smc_posix_sem\<close> is the value of the POSIX semaphore.\<close>

record sm_generic_context =
  smc_posix_sem :: int
  smc_current_count :: ULONG
  smc_max_count :: ULONG
  smc_wait_count :: ULONG
  smc_signal_count :: ULONG

text \<open>
  \<open>SM_SCB\<close>. \<open>current_count\<close> is a signed \<open>LONG\<close>, read with \<open>sint\<close>. The wait
  queue, a doubly linked list of nodes from \<open>malloc\<close> between \<open>wait_queue_head\<close> and
  \<open>wait_queue_tail\<close>, is kept as the list of its nodes from head to tail; the head is
  \<open>NULL\<close> when the list is empty.
\<close>

record sm_scb =
  scb_magic :: ULONG
  scb_semaphore_id :: ULONG
  scb_name :: "char list"
  scb_state :: ULONG
  scb_flags :: ULONG
  scb_current_count :: ULONG
  scb_initial_count :: ULONG
  scb_maximum_count :: ULONG
  scb_wait_queue :: "sm_wait_node list"
  scb_wait_count :: ULONG
  scb_wait_mode :: ULONG
  scb_total_waits :: ULONG
  scb_total_signals :: ULONG
  scb_total_timeouts :: ULONG
  scb_max_wait_time :: ULONG
  scb_next :: ptr
  scb_prev :: ptr
  scb_hw_context :: "sm_generic_context option"

record sm_pool =
  smp_magic :: ULONG
  smp_max_semaphores :: ULONG
  smp_active_count :: ULONG
  smp_next_id :: ULONG
  smp_free_list :: ptr
  smp_active_list :: ptr
  semaphores :: "nat \<Rightarrow> sm_scb"

record sm_hw_generic_state =
  smh_initialized :: ULONG
  smh_total_created :: ULONG
  smh_total_signals :: ULONG
  smh_total_waits :: ULONG

record sm_state =
  sm_pool :: sm_pool
  sm_hw_ops :: bool
  sm_initialized :: ULONG
  sm_total_created :: ULONG
  sm_total_deleted :: ULONG
  sm_hw :: sm_hw_generic_state

definition sm_scb_zero :: sm_scb where
  "sm_scb_zero = \<lparr> scb_magic = 0, scb_semaphore_id = 0, scb_name = replicate 4 (CHR 0x00),
     scb_state = 0, scb_flags = 0, scb_current_count = 0, scb_initial_count = 0,
     scb_maximum_count = 0, scb_wait_queue = [], scb_wait_count = 0, scb_wait_mode = 0,
     scb_total_waits = 0, scb_total_signals = 0, scb_total_timeouts = 0,
     scb_max_wait_time = 0, scb_next = None, scb_prev = None, scb_hw_context = None \<rparr>"

definition sm_pool_zero :: sm_pool where
  "sm_pool_zero = \<lparr> smp_magic = 0, smp_max_semaphores = 0, smp_active_count = 0,
     smp_next_id = 0, smp_free_list = None, smp_active_list = None,
     semaphores = (\<lambda>i. sm_scb_zero) \<rparr>"

text \<open>\<open>SM_STATE sm_global_state = {0}\<close>.\<close>

definition sm_global_state_zero :: sm_state where
  "sm_global_state_zero = \<lparr> sm_pool = sm_pool_zero, sm_hw_ops = False, sm_initialized = 0,
     sm_total_created = 0, sm_total_deleted = 0,
     sm_hw = \<lparr> smh_initialized = 0, smh_total_created = 0, smh_total_signals = 0,
               smh_total_waits = 0 \<rparr> \<rparr>"

definition SCB :: "sm_state \<Rightarrow> nat \<Rightarrow> sm_scb" where
  "SCB s i = semaphores (sm_pool s) i"

definition SCB_upd :: "nat \<Rightarrow> (sm_scb \<Rightarrow> sm_scb) \<Rightarrow> sm_state \<Rightarrow> sm_state" where
  "SCB_upd i f s =
     (let old = semaphores (sm_pool s); v = f (old i)
      in s\<lparr> sm_pool := (sm_pool s)\<lparr> semaphores := old(i := v) \<rparr> \<rparr>)"

definition SM_POOL_upd :: "(sm_pool \<Rightarrow> sm_pool) \<Rightarrow> sm_state \<Rightarrow> sm_state" where
  "SM_POOL_upd f s = s\<lparr> sm_pool := f (sm_pool s) \<rparr>"

definition SM_IS_VALID_SCB :: "sm_state \<Rightarrow> ptr \<Rightarrow> bool" where
  "SM_IS_VALID_SCB s p = (case p of None \<Rightarrow> False | Some i \<Rightarrow> scb_magic (SCB s i) = SM_POOL_MAGIC)"

definition SM_IS_VALID_ID :: "ULONG \<Rightarrow> bool" where
  "SM_IS_VALID_ID id' \<longleftrightarrow> id' \<noteq> SM_INVALID_ID"

definition SM_IS_VALID_COUNT :: "ULONG \<Rightarrow> bool" where
  "SM_IS_VALID_COUNT cnt \<longleftrightarrow> 0 \<le> sint cnt \<and> sint cnt \<le> sint SM_MAX_COUNT"

definition SM_IS_VALID_FLAGS :: "ULONG \<Rightarrow> bool" where
  "SM_IS_VALID_FLAGS flags \<longleftrightarrow> flags AND NOT (SM_FIFO OR SM_PRIOR OR SM_NOWAIT) = 0"

subsection \<open>Pool management\<close>

definition sm_pool_init :: "sm_state \<Rightarrow> sm_state" where
  "sm_pool_init s =
     s\<lparr> sm_pool := \<lparr> smp_magic = SM_POOL_MAGIC, smp_max_semaphores = of_nat SM_MAX_SEMAPHORES,
        smp_active_count = 0, smp_next_id = 1, smp_free_list = Some 0, smp_active_list = None,
        semaphores = (\<lambda>i. if i < SM_MAX_SEMAPHORES - 1
           then sm_scb_zero\<lparr> scb_next := Some (i + 1), scb_semaphore_id := 0,
                  scb_state := SM_STATE_FREE, scb_magic := 0 \<rparr>
           else sm_scb_zero) \<rparr> \<rparr>"

definition sm_generate_id :: "sm_state \<Rightarrow> ULONG \<times> sm_state" where
  "sm_generate_id s =
     (let id' = smp_next_id (sm_pool s);
          n = id' + 1
      in (id', SM_POOL_upd (\<lambda>p. p\<lparr> smp_next_id := (if n = 0 then 1 else n) \<rparr>) s))"

definition sm_pool_alloc :: "sm_state \<Rightarrow> ptr \<times> sm_state" where
  "sm_pool_alloc s =
     (case smp_free_list (sm_pool s) of
        None \<Rightarrow> (None, s)
      | Some i \<Rightarrow>
          (let s1 = SM_POOL_upd (\<lambda>p. p\<lparr> smp_free_list := scb_next (SCB s i),
                                           smp_active_count := smp_active_count p + 1 \<rparr>) s;
               (id', s2) = sm_generate_id s1;
               al = smp_active_list (sm_pool s2);
               s3 = SCB_upd i (\<lambda>_. sm_scb_zero\<lparr> scb_magic := SM_POOL_MAGIC,
                      scb_semaphore_id := id', scb_state := SM_STATE_ACTIVE, scb_next := al \<rparr>) s2;
               s4 = (case al of None \<Rightarrow> s3
                     | Some a \<Rightarrow> SCB_upd a (\<lambda>c. c\<lparr> scb_prev := Some i \<rparr>) s3)
           in (Some i, SM_POOL_upd (\<lambda>p. p\<lparr> smp_active_list := Some i \<rparr>) s4)))"

definition sm_wait_queue_clear :: "ptr \<Rightarrow> sm_state \<Rightarrow> kerr \<times> sm_state" where
  "sm_wait_queue_clear p s =
     (case p of
        None \<Rightarrow> (ERR_BADPARAM, s)
      | Some i \<Rightarrow>
          if \<not> SM_IS_VALID_SCB s p then (ERR_BADPARAM, s)
          else (OK, SCB_upd i (\<lambda>c. c\<lparr> scb_wait_queue := [], scb_wait_count := 0 \<rparr>) s))"

definition sm_hw_generic_delete_semaphore :: "ptr \<Rightarrow> sm_state \<Rightarrow> kerr \<times> sm_state" where
  "sm_hw_generic_delete_semaphore p s =
     (case p of
        None \<Rightarrow> (ERR_BADPARAM, s)
      | Some i \<Rightarrow>
          (case scb_hw_context (SCB s i) of
             None \<Rightarrow> (ERR_BADPARAM, s)
           | Some ctx \<Rightarrow> (OK, SCB_upd i (\<lambda>c. c\<lparr> scb_hw_context := None \<rparr>) s)))"

definition sm_pool_free :: "ptr \<Rightarrow> sm_state \<Rightarrow> kerr \<times> sm_state" where
  "sm_pool_free p s =
     (case p of
        None \<Rightarrow> (ERR_BADPARAM, s)
      | Some i \<Rightarrow>
          if \<not> SM_IS_VALID_SCB s p then (ERR_BADPARAM, s)
          else
            (let nx = scb_next (SCB s i);
                 pv = scb_prev (SCB s i);
                 s1 = (case pv of
                         Some b \<Rightarrow> SCB_upd b (\<lambda>c. c\<lparr> scb_next := nx \<rparr>) s
                       | None \<Rightarrow> SM_POOL_upd (\<lambda>pl. pl\<lparr> smp_active_list := nx \<rparr>) s);
                 s2 = (case scb_next (SCB s1 i) of
                         Some a \<Rightarrow> SCB_upd a (\<lambda>c. c\<lparr> scb_prev := scb_prev (SCB s1 i) \<rparr>) s1
                       | None \<Rightarrow> s1);
                 s3 = snd (sm_wait_queue_clear p s2);
                 s4 = (if sm_hw_ops s3 then snd (sm_hw_generic_delete_semaphore p s3) else s3);
                 s5 = SCB_upd i (\<lambda>_. sm_scb_zero\<lparr> scb_state := SM_STATE_FREE,
                        scb_next := smp_free_list (sm_pool s4) \<rparr>) s4
             in (OK, SM_POOL_upd (\<lambda>pl. pl\<lparr> smp_free_list := Some i,
                                       smp_active_count := smp_active_count pl - 1 \<rparr>) s5)))"

text \<open>
  The search loops of \<open>sm_pool_find\<close> and \<open>sm_pool_find_by_name\<close> follow \<open>next\<close>
  until \<open>NULL\<close>; on a cyclic list they do not return.
\<close>

partial_function (option) sm_pool_find_loop :: "sm_state \<Rightarrow> ULONG \<Rightarrow> ptr \<Rightarrow> ptr option" where
  "sm_pool_find_loop s semaphore_id scb =
     (case scb of
        None \<Rightarrow> Some None
      | Some i \<Rightarrow>
          if scb_semaphore_id (SCB s i) = semaphore_id \<and> SM_IS_VALID_SCB s scb then Some scb
          else sm_pool_find_loop s semaphore_id (scb_next (SCB s i)))"

declare sm_pool_find_loop.simps [code]

definition sm_pool_find :: "sm_state \<Rightarrow> ULONG \<Rightarrow> ptr option" where
  "sm_pool_find s semaphore_id =
     (if \<not> SM_IS_VALID_ID semaphore_id then Some None
      else sm_pool_find_loop s semaphore_id (smp_active_list (sm_pool s)))"

definition sm_name_compare :: "char list \<Rightarrow> char list \<Rightarrow> bool" where
  "sm_name_compare name1 name2 \<longleftrightarrow> take 4 name1 = take 4 name2"

definition sm_name_copy :: "char list option \<Rightarrow> char list" where
  "sm_name_copy src = (case src of None \<Rightarrow> replicate 4 (CHR 0x00) | Some n \<Rightarrow> take 4 n)"

partial_function (option) sm_pool_find_by_name_loop :: "sm_state \<Rightarrow> char list \<Rightarrow> ptr \<Rightarrow> ptr option" where
  "sm_pool_find_by_name_loop s name scb =
     (case scb of
        None \<Rightarrow> Some None
      | Some i \<Rightarrow>
          if SM_IS_VALID_SCB s scb \<and> sm_name_compare (scb_name (SCB s i)) name then Some scb
          else sm_pool_find_by_name_loop s name (scb_next (SCB s i)))"

declare sm_pool_find_by_name_loop.simps [code]

definition sm_pool_find_by_name :: "sm_state \<Rightarrow> char list \<Rightarrow> ptr option" where
  "sm_pool_find_by_name s name = sm_pool_find_by_name_loop s name (smp_active_list (sm_pool s))"

subsection \<open>Wait queue\<close>

text \<open>Priority insertion passes every node whose priority is at most the new one.\<close>

fun sm_insert_by_priority :: "sm_wait_node \<Rightarrow> sm_wait_node list \<Rightarrow> sm_wait_node list" where
  "sm_insert_by_priority node [] = [node]"
| "sm_insert_by_priority node (c # cs) =
     (if wn_priority c \<le> wn_priority node then c # sm_insert_by_priority node cs
      else node # c # cs)"

definition sm_wait_queue_add :: "platform \<Rightarrow> ptr \<Rightarrow> ULONG \<Rightarrow> ULONG \<Rightarrow> sm_state \<Rightarrow> kerr \<times> sm_state" where
  "sm_wait_queue_add pf p task_id priority s =
     (case p of
        None \<Rightarrow> (ERR_BADPARAM, s)
      | Some i \<Rightarrow>
          if \<not> SM_IS_VALID_SCB s p then (ERR_BADPARAM, s)
          else if \<not> malloc_ok pf then (ERR_NOMEM, s)
          else
            (let node = \<lparr> wn_task_id = task_id, wn_priority = priority, wn_wait_start = 0 \<rparr>
             in (OK, SCB_upd i (\<lambda>c. c\<lparr> scb_wait_queue :=
                         (if scb_wait_mode c = SM_PRIOR
                          then sm_insert_by_priority node (scb_wait_queue c)
                          else scb_wait_queue c @ [node]),
                       scb_wait_count := scb_wait_count c + 1 \<rparr>) s)))"

fun sm_remove_task :: "ULONG \<Rightarrow> sm_wait_node list \<Rightarrow> sm_wait_node list option" where
  "sm_remove_task task_id [] = None"
| "sm_remove_task task_id (c # cs) =
     (if wn_task_id c = task_id then Some cs
      else map_option (\<lambda>r. c # r) (sm_remove_task task_id cs))"

definition sm_wait_queue_remove :: "ptr \<Rightarrow> ULONG \<Rightarrow> sm_state \<Rightarrow> kerr \<times> sm_state" where
  "sm_wait_queue_remove p task_id s =
     (case p of
        None \<Rightarrow> (ERR_BADPARAM, s)
      | Some i \<Rightarrow>
          if \<not> SM_IS_VALID_SCB s p then (ERR_BADPARAM, s)
          else
            (case sm_remove_task task_id (scb_wait_queue (SCB s i)) of
               None \<Rightarrow> (ERR_OBJNF, s)
             | Some q \<Rightarrow> (OK, SCB_upd i (\<lambda>c. c\<lparr> scb_wait_queue := q,
                                                scb_wait_count := scb_wait_count c - 1 \<rparr>) s)))"

definition sm_wait_queue_get_next :: "ptr \<Rightarrow> sm_state \<Rightarrow> ULONG \<times> sm_state" where
  "sm_wait_queue_get_next p s =
     (case p of
        None \<Rightarrow> (0, s)
      | Some i \<Rightarrow>
          if \<not> SM_IS_VALID_SCB s p then (0, s)
          else
            (case scb_wait_queue (SCB s i) of
               [] \<Rightarrow> (0, s)
             | node # rest \<Rightarrow>
                 (wn_task_id node,
                  SCB_upd i (\<lambda>c. c\<lparr> scb_wait_queue := rest,
                                     scb_wait_count := scb_wait_count c - 1 \<rparr>) s)))"

subsection \<open>Count operations\<close>

definition sm_increment_count :: "ptr \<Rightarrow> sm_state \<Rightarrow> kerr \<times> sm_state" where
  "sm_increment_count p s =
     (case p of
        None \<Rightarrow> (ERR_BADPARAM, s)
      | Some i \<Rightarrow>
          if \<not> SM_IS_VALID_SCB s p then (ERR_BADPARAM, s)
          else if sint (scb_maximum_count (SCB s i)) \<le> sint (scb_current_count (SCB s i))
            then (ERR_SEMFULL, s)
          else (OK, SCB_upd i (\<lambda>c. c\<lparr> scb_current_count := scb_current_count c + 1 \<rparr>) s))"

definition sm_decrement_count :: "ptr \<Rightarrow> sm_state \<Rightarrow> kerr \<times> sm_state" where
  "sm_decrement_count p s =
     (case p of
        None \<Rightarrow> (ERR_BADPARAM, s)
      | Some i \<Rightarrow>
          if \<not> SM_IS_VALID_SCB s p then (ERR_BADPARAM, s)
          else if sint (scb_current_count (SCB s i)) \<le> 0 then (ERR_NOSEM, s)
          else (OK, SCB_upd i (\<lambda>c. c\<lparr> scb_current_count := scb_current_count c - 1 \<rparr>) s))"

definition sm_check_available :: "ptr \<Rightarrow> sm_state \<Rightarrow> ULONG" where
  "sm_check_available p s =
     (case p of
        None \<Rightarrow> 0
      | Some i \<Rightarrow>
          if \<not> SM_IS_VALID_SCB s p then 0
          else if 0 < sint (scb_current_count (SCB s i)) then 1 else 0)"

definition sm_validate_count :: "ULONG \<Rightarrow> kerr" where
  "sm_validate_count cnt = (if SM_IS_VALID_COUNT cnt then OK else ERR_BADPARAM)"

definition sm_validate_flags :: "ULONG \<Rightarrow> kerr" where
  "sm_validate_flags flags = (if SM_IS_VALID_FLAGS flags then OK else ERR_BADPARAM)"

text \<open>\<open>sm_get_current_task_id\<close> and \<open>sm_get_current_priority\<close> are placeholders.\<close>

definition sm_get_current_task_id :: ULONG where "sm_get_current_task_id = 0"
definition sm_get_current_priority :: ULONG where "sm_get_current_priority = 128"

definition sm_update_statistics :: "ptr \<Rightarrow> ULONG \<Rightarrow> ULONG \<Rightarrow> sm_state \<Rightarrow> sm_state" where
  "sm_update_statistics p operation wait_time s =
     (case p of
        None \<Rightarrow> s
      | Some i \<Rightarrow>
          if \<not> SM_IS_VALID_SCB s p then s
          else if operation = SM_STAT_WAIT then
            SCB_upd i (\<lambda>c. c\<lparr> scb_total_waits := scb_total_waits c + 1,
                               scb_max_wait_time := (if scb_max_wait_time c < wait_time
                                                     then wait_time else scb_max_wait_time c) \<rparr>) s
          else if operation = SM_STAT_SIGNAL then
            SCB_upd i (\<lambda>c. c\<lparr> scb_total_signals := scb_total_signals c + 1 \<rparr>) s
          else if operation = SM_STAT_TIMEOUT then
            SCB_upd i (\<lambda>c. c\<lparr> scb_total_timeouts := scb_total_timeouts c + 1 \<rparr>) s
          else s)"

subsection \<open>Generic hardware layer\<close>

definition sm_hw_generic_init :: "sm_state \<Rightarrow> kerr \<times> sm_state" where
  "sm_hw_generic_init s =
     (if smh_initialized (sm_hw s) \<noteq> 0 then (OK, s)
      else (OK, s\<lparr> sm_hw := \<lparr> smh_initialized = 1, smh_total_created = 0,
                               smh_total_signals = 0, smh_total_waits = 0 \<rparr> \<rparr>))"

definition sm_hw_generic_create_semaphore ::
  "platform \<Rightarrow> ptr \<Rightarrow> ULONG \<Rightarrow> ULONG \<Rightarrow> sm_state \<Rightarrow> kerr \<times> sm_state" where
  "sm_hw_generic_create_semaphore pf p initial_count max_count s =
     (case p of
        None \<Rightarrow> (ERR_BADPARAM, s)
      | Some i \<Rightarrow>
          if \<not> malloc_ok pf then (ERR_NOMEM, s)
          else if \<not> init_ok pf \<or> SEM_VALUE_MAX < uint initial_count then (ERR_NOTSUPPORTED, s)
          else (OK, (SCB_upd i (\<lambda>c. c\<lparr> scb_hw_context :=
                       Some \<lparr> smc_posix_sem = uint initial_count,
                              smc_current_count = initial_count, smc_max_count = max_count,
                              smc_wait_count = 0, smc_signal_count = 0 \<rparr> \<rparr>) s)
                     \<lparr> sm_hw := (sm_hw s)\<lparr> smh_total_created := smh_total_created (sm_hw s) + 1 \<rparr> \<rparr>))"

text \<open>
  \<open>sm_hw_generic_wait_semaphore\<close> waits without limit only for
  \<open>timeout = SM_INFINITE_TIMEOUT\<close> (\<open>sem_wait\<close>); every other timeout, 0 included,
  computes the deadline "now + timeout ticks" and calls \<open>sem_timedwait\<close>. For a caller
  that runs alone, \<open>sem_wait\<close> on a semaphore of value 0 never returns and
  \<open>sem_timedwait\<close> on it fails with \<open>ETIMEDOUT\<close>; on a positive value both take one
  unit and return 0.
\<close>

definition sm_hw_generic_wait_semaphore :: "ptr \<Rightarrow> ULONG \<Rightarrow> sm_state \<Rightarrow> (kerr \<times> sm_state) option" where
  "sm_hw_generic_wait_semaphore p timeout s =
     (case p of
        None \<Rightarrow> Some (ERR_BADPARAM, s)
      | Some i \<Rightarrow>
          (case scb_hw_context (SCB s i) of
             None \<Rightarrow> Some (ERR_BADPARAM, s)
           | Some ctx \<Rightarrow>
               (let ctx1 = ctx\<lparr> smc_wait_count := smc_wait_count ctx + 1 \<rparr>;
                    s1 = s\<lparr> sm_hw := (sm_hw s)\<lparr> smh_total_waits := smh_total_waits (sm_hw s) + 1 \<rparr> \<rparr>
                in if 0 < smc_posix_sem ctx1 then
                     (let ctx2 = ctx1\<lparr> smc_posix_sem := smc_posix_sem ctx1 - 1 \<rparr>;
                          ctx3 = (if 0 < smc_current_count ctx2
                                  then ctx2\<lparr> smc_current_count := smc_current_count ctx2 - 1 \<rparr>
                                  else ctx2)
                      in Some (OK, SCB_upd i (\<lambda>c. c\<lparr> scb_hw_context := Some ctx3 \<rparr>) s1))
                   else if timeout = SM_INFINITE_TIMEOUT then None
                   else Some (ERR_TIMEOUT, SCB_upd i (\<lambda>c. c\<lparr> scb_hw_context := Some ctx1 \<rparr>) s1))))"

definition sm_hw_generic_signal_semaphore :: "ptr \<Rightarrow> sm_state \<Rightarrow> kerr \<times> sm_state" where
  "sm_hw_generic_signal_semaphore p s =
     (case p of
        None \<Rightarrow> (ERR_BADPARAM, s)
      | Some i \<Rightarrow>
          (case scb_hw_context (SCB s i) of
             None \<Rightarrow> (ERR_BADPARAM, s)
           | Some ctx \<Rightarrow>
               if smc_max_count ctx \<le> smc_current_count ctx then (ERR_SEMFULL, s)
               else if SEM_VALUE_MAX \<le> smc_posix_sem ctx then (ERR_NOTSUPPORTED, s)
               else (OK, (SCB_upd i (\<lambda>c. c\<lparr> scb_hw_context :=
                            Some (ctx\<lparr> smc_posix_sem := smc_posix_sem ctx + 1,
                                       smc_current_count := smc_current_count ctx + 1,
                                       smc_signal_count := smc_signal_count ctx + 1 \<rparr>) \<rparr>) s)
                          \<lparr> sm_hw := (sm_hw s)\<lparr> smh_total_signals :=
                               smh_total_signals (sm_hw s) + 1 \<rparr> \<rparr>)))"

definition sm_hw_init :: "sm_state \<Rightarrow> kerr \<times> sm_state" where
  "sm_hw_init s = sm_hw_generic_init (s\<lparr> sm_hw_ops := True \<rparr>)"

subsection \<open>Public calls\<close>

definition sm_init_once :: "sm_state \<Rightarrow> kerr \<times> sm_state" where
  "sm_init_once s =
     (if sm_initialized s \<noteq> 0 then (OK, s)
      else
        (let s1 = sm_pool_init s;
             s2 = snd (sm_hw_init s1)
         in (OK, s2\<lparr> sm_total_created := 0, sm_total_deleted := 0, sm_initialized := 1 \<rparr>)))"

definition sm_create ::
  "platform \<Rightarrow> char list option \<Rightarrow> ULONG \<Rightarrow> ULONG \<Rightarrow> ULONG option \<Rightarrow> sm_state
     \<Rightarrow> kerr \<times> ULONG option \<times> sm_state" where
  "sm_create pf name count' flags smid s0 =
     (let (error0, s) = sm_init_once s0 in
      if error0 \<noteq> OK then (error0, smid, s)
      else if smid = None then (ERR_BADPARAM, smid, s)
      else if sm_validate_count count' \<noteq> OK then (sm_validate_count count', smid, s)
      else if sm_validate_flags flags \<noteq> OK then (sm_validate_flags flags, smid, s)
      else
        (case sm_pool_alloc s of
           (None, s1) \<Rightarrow> (ERR_NOSCB, smid, s1)
         | (Some i, s1) \<Rightarrow>
             (let maxc = (if flags AND SM_PRIOR \<noteq> 0 then SM_MAX_COUNT else 8);
                  s2 = SCB_upd i (\<lambda>c. c\<lparr> scb_name := sm_name_copy name,
                         scb_current_count := count', scb_initial_count := count',
                         scb_maximum_count := maxc, scb_flags := flags,
                         scb_wait_mode := (if flags AND SM_PRIOR \<noteq> 0 then SM_PRIOR else SM_FIFO) \<rparr>) s1;
                  (error, s3) = (if sm_hw_ops s2
                                 then sm_hw_generic_create_semaphore pf (Some i) count' maxc s2
                                 else (OK, s2))
              in if error \<noteq> OK then (error, smid, snd (sm_pool_free (Some i) s3))
                 else (OK, Some (scb_semaphore_id (SCB s3 i)),
                       s3\<lparr> sm_total_created := sm_total_created s3 + 1 \<rparr>))))"

text \<open>The loop of \<open>sm_delete\<close> empties the wait queue node by node.\<close>

fun sm_delete_wake_all :: "nat \<Rightarrow> ptr \<Rightarrow> sm_state \<Rightarrow> sm_state" where
  "sm_delete_wake_all 0 p s = s"
| "sm_delete_wake_all (Suc n) p s = sm_delete_wake_all n p (snd (sm_wait_queue_get_next p s))"

definition sm_delete :: "ULONG \<Rightarrow> sm_state \<Rightarrow> (kerr \<times> sm_state) option" where
  "sm_delete smid s0 =
     (let s = snd (sm_init_once s0) in
      case sm_pool_find s smid of
        None \<Rightarrow> None
      | Some None \<Rightarrow> Some (ERR_OBJID, s)
      | Some (Some i) \<Rightarrow>
          if scb_state (SCB s i) = SM_STATE_FREE then Some (ERR_OBJDEL, s)
          else
            (let s1 = sm_delete_wake_all (length (scb_wait_queue (SCB s i))) (Some i) s;
                 s2 = snd (sm_pool_free (Some i) s1)
             in Some (OK, s2\<lparr> sm_total_deleted := sm_total_deleted s2 + 1 \<rparr>)))"

definition sm_ident ::
  "char list \<Rightarrow> ULONG \<Rightarrow> ULONG option \<Rightarrow> sm_state \<Rightarrow> (kerr \<times> ULONG option \<times> sm_state) option" where
  "sm_ident name node smid s0 =
     (let s = snd (sm_init_once s0) in
      if smid = None then Some (ERR_BADPARAM, smid, s)
      else
        (case sm_pool_find_by_name s name of
           None \<Rightarrow> None
         | Some None \<Rightarrow> Some (ERR_OBJNF, smid, s)
         | Some (Some i) \<Rightarrow> Some (OK, Some (scb_semaphore_id (SCB s i)), s)))"

text \<open>
  \<open>sm_p(smid, flags, timeout)\<close>. \<open>None\<close>: the call never returns, because the search
  loop does not end or because the caller waits forever.
\<close>

definition sm_p :: "platform \<Rightarrow> ULONG \<Rightarrow> ULONG \<Rightarrow> ULONG \<Rightarrow> sm_state \<Rightarrow> (kerr \<times> sm_state) option" where
  "sm_p pf smid flags timeout s0 =
     (let s = snd (sm_init_once s0) in
      case sm_pool_find s smid of
        None \<Rightarrow> None
      | Some None \<Rightarrow> Some (ERR_OBJID, s)
      | Some (Some i) \<Rightarrow>
          if scb_state (SCB s i) \<noteq> SM_STATE_ACTIVE then Some (ERR_OBJDEL, s)
          else if sm_check_available (Some i) s \<noteq> 0 then
            (let (error, s1) = sm_decrement_count (Some i) s
             in Some (error, sm_update_statistics (Some i) SM_STAT_WAIT 0 s1))
          else if flags AND SM_NOWAIT \<noteq> 0 then Some (ERR_NOSEM, s)
          else
            (let task_id = sm_get_current_task_id;
                 priority = sm_get_current_priority;
                 (error, s1) = sm_wait_queue_add pf (Some i) task_id priority s
             in if error \<noteq> OK then Some (error, s1)
                else
                  (case (if sm_hw_ops s1 then sm_hw_generic_wait_semaphore (Some i) timeout s1
                         else Some (OK, s1)) of
                     None \<Rightarrow> None
                   | Some (werror, s2) \<Rightarrow>
                       if sm_hw_ops s1 \<and> werror = ERR_TIMEOUT then
                         Some (ERR_TIMEOUT,
                               sm_update_statistics (Some i) SM_STAT_TIMEOUT 0
                                 (snd (sm_wait_queue_remove (Some i) task_id s2)))
                       else Some (OK, sm_update_statistics (Some i) SM_STAT_WAIT 0 s2))))"

definition sm_v :: "ULONG \<Rightarrow> sm_state \<Rightarrow> (kerr \<times> sm_state) option" where
  "sm_v smid s0 =
     (let s = snd (sm_init_once s0) in
      case sm_pool_find s smid of
        None \<Rightarrow> None
      | Some None \<Rightarrow> Some (ERR_OBJID, s)
      | Some (Some i) \<Rightarrow>
          if scb_state (SCB s i) \<noteq> SM_STATE_ACTIVE then Some (ERR_OBJDEL, s)
          else if 0 < scb_wait_count (SCB s i) then
            (let (task_id, s1) = sm_wait_queue_get_next (Some i) s;
                 s2 = (if sm_hw_ops s1 then snd (sm_hw_generic_signal_semaphore (Some i) s1) else s1)
             in Some (OK, sm_update_statistics (Some i) SM_STAT_SIGNAL 0 s2))
          else
            (let (error, s1) = sm_increment_count (Some i) s
             in if error \<noteq> OK then Some (error, s1)
                else Some (OK, sm_update_statistics (Some i) SM_STAT_SIGNAL 0 s1)))"

section \<open>Message queues (kernel/ipc/queue.c, queue\_hw\_generic.c)\<close>

definition Q_POOL_MAGIC :: ULONG where "Q_POOL_MAGIC = 0x51455545"
definition Q_INVALID_ID :: ULONG where "Q_INVALID_ID = 0"
definition Q_MIN_COUNT :: ULONG where "Q_MIN_COUNT = 4"
definition Q_MAX_COUNT :: ULONG where "Q_MAX_COUNT = 1024"
definition Q_MAX_BUFFERS :: ULONG where "Q_MAX_BUFFERS = MAX_BUF"

definition Q_GLOBAL :: ULONG where "Q_GLOBAL = 0x00000001"
definition Q_LOCAL :: ULONG where "Q_LOCAL = 0x00000000"
definition Q_PRIOR :: ULONG where "Q_PRIOR = 0x00000002"
definition Q_FIFO :: ULONG where "Q_FIFO = 0x00000000"
definition Q_PRIBUF :: ULONG where "Q_PRIBUF = 0x00000008"
definition Q_NOWAIT :: ULONG where "Q_NOWAIT = 0x00000001"
definition Q_WAIT :: ULONG where "Q_WAIT = 0x00000000"

definition Q_STAT_SEND :: ULONG where "Q_STAT_SEND = 1"
definition Q_STAT_RECEIVE :: ULONG where "Q_STAT_RECEIVE = 2"
definition Q_STAT_BROADCAST :: ULONG where "Q_STAT_BROADCAST = 3"
definition Q_STAT_URGENT :: ULONG where "Q_STAT_URGENT = 4"
definition Q_STAT_OVERFLOW :: ULONG where "Q_STAT_OVERFLOW = 5"

datatype Q_STATE_TYPE = Q_STATE_FREE | Q_STATE_ACTIVE | Q_STATE_DELETING

text \<open>A message is the four words of \<open>Q_MSGBUF\<close>.\<close>

type_synonym q_msg = "ULONG list"

definition q_msg_zero :: q_msg where "q_msg_zero = [0, 0, 0, 0]"

text \<open>\<open>Q_QCB\<close>; the four \<open>buf_\<close> fields are the embedded \<open>Q_BUFDESC buf\<close>.\<close>

record q_qcb =
  qcb_name :: "char list"
  qcb_queue_id :: ULONG
  qcb_magic :: ULONG
  qcb_state :: Q_STATE_TYPE
  qcb_count :: ULONG
  qcb_flags :: ULONG
  qcb_mode :: ULONG
  buf_start :: ULONG
  buf_end :: ULONG
  buf_nextin :: ULONG
  buf_nextout :: ULONG
  qcb_current_messages :: ULONG
  qcb_high_water_mark :: ULONG
  qcb_semname :: "char list"
  qcb_semid :: ULONG
  qcb_total_sent :: ULONG
  qcb_total_received :: ULONG
  qcb_total_broadcasts :: ULONG
  qcb_total_overflows :: ULONG
  qcb_max_wait_time :: ULONG
  qcb_next :: ptr
  qcb_prev :: ptr

record q_pool =
  qp_magic :: ULONG
  qp_max_queues :: ULONG
  qp_active_count :: ULONG
  qp_next_id :: ULONG
  qp_free_list :: ptr
  qp_active_list :: ptr
  queues :: "nat \<Rightarrow> q_qcb"

record q_buffer_pool =
  bp_magic :: ULONG
  bp_total_buffers :: ULONG
  bp_next_available :: ULONG
  bp_buffers_allocated :: ULONG
  bp_allocation_failures :: ULONG
  buffers :: "ULONG \<Rightarrow> q_msg"

record q_hw_generic_state =
  qh_initialized :: ULONG
  qh_total_operations :: ULONG
  qh_active_waits :: ULONG

text \<open>
  \<open>Q_STATE\<close>, with the static state \<open>q_hw_state\<close> of the generic hardware layer as
  \<open>q_hw\<close>; that one is not part of the structure \<open>q_init_once\<close> clears.
\<close>

record q_state =
  q_magic :: ULONG
  q_initialized :: ULONG
  q_interrupts_disabled :: ULONG
  q_hw_ops :: bool
  queue_pool :: q_pool
  buffer_pool :: q_buffer_pool
  q_total_queues_created :: ULONG
  q_total_queues_deleted :: ULONG
  q_total_messages_sent :: ULONG
  q_total_messages_received :: ULONG
  q_total_buffer_overflows :: ULONG
  q_hw :: q_hw_generic_state

text \<open>The queue calls work on the queue state and, for their semaphores, on the
  semaphore state.\<close>

record q_world =
  qw_q :: q_state
  qw_sm :: sm_state

definition q_qcb_zero :: q_qcb where
  "q_qcb_zero = \<lparr> qcb_name = replicate 4 (CHR 0x00), qcb_queue_id = 0, qcb_magic = 0,
     qcb_state = Q_STATE_FREE, qcb_count = 0, qcb_flags = 0, qcb_mode = 0,
     buf_start = 0, buf_end = 0, buf_nextin = 0, buf_nextout = 0,
     qcb_current_messages = 0, qcb_high_water_mark = 0,
     qcb_semname = replicate 4 (CHR 0x00), qcb_semid = 0,
     qcb_total_sent = 0, qcb_total_received = 0, qcb_total_broadcasts = 0,
     qcb_total_overflows = 0, qcb_max_wait_time = 0, qcb_next = None, qcb_prev = None \<rparr>"

definition q_pool_zero :: q_pool where
  "q_pool_zero = \<lparr> qp_magic = 0, qp_max_queues = 0, qp_active_count = 0, qp_next_id = 0,
     qp_free_list = None, qp_active_list = None, queues = (\<lambda>i. q_qcb_zero) \<rparr>"

definition q_buffer_pool_zero :: q_buffer_pool where
  "q_buffer_pool_zero = \<lparr> bp_magic = 0, bp_total_buffers = 0, bp_next_available = 0,
     bp_buffers_allocated = 0, bp_allocation_failures = 0, buffers = (\<lambda>i. q_msg_zero) \<rparr>"

text \<open>\<open>Q_STATE q_global_state = {0}\<close> and the initial \<open>q_hw_state\<close>.\<close>

definition q_global_state_zero :: q_state where
  "q_global_state_zero = \<lparr> q_magic = 0, q_initialized = 0, q_interrupts_disabled = 0,
     q_hw_ops = False, queue_pool = q_pool_zero, buffer_pool = q_buffer_pool_zero,
     q_total_queues_created = 0, q_total_queues_deleted = 0, q_total_messages_sent = 0,
     q_total_messages_received = 0, q_total_buffer_overflows = 0,
     q_hw = \<lparr> qh_initialized = 0, qh_total_operations = 0, qh_active_waits = 0 \<rparr> \<rparr>"

definition q_world_zero :: q_world where
  "q_world_zero = \<lparr> qw_q = q_global_state_zero, qw_sm = sm_global_state_zero \<rparr>"

definition QCB :: "q_state \<Rightarrow> nat \<Rightarrow> q_qcb" where
  "QCB s i = queues (queue_pool s) i"

definition QCB_upd :: "nat \<Rightarrow> (q_qcb \<Rightarrow> q_qcb) \<Rightarrow> q_state \<Rightarrow> q_state" where
  "QCB_upd i f s =
     (let old = queues (queue_pool s); v = f (old i)
      in s\<lparr> queue_pool := (queue_pool s)\<lparr> queues := old(i := v) \<rparr> \<rparr>)"

definition Q_POOL_upd :: "(q_pool \<Rightarrow> q_pool) \<Rightarrow> q_state \<Rightarrow> q_state" where
  "Q_POOL_upd f s = s\<lparr> queue_pool := f (queue_pool s) \<rparr>"

definition Q_BUFFER_POOL_upd :: "(q_buffer_pool \<Rightarrow> q_buffer_pool) \<Rightarrow> q_state \<Rightarrow> q_state" where
  "Q_BUFFER_POOL_upd f s = s\<lparr> buffer_pool := f (buffer_pool s) \<rparr>"

definition Q_IS_VALID_QCB :: "q_state \<Rightarrow> ptr \<Rightarrow> bool" where
  "Q_IS_VALID_QCB s p = (case p of None \<Rightarrow> False | Some i \<Rightarrow> qcb_magic (QCB s i) = Q_POOL_MAGIC)"

definition Q_IS_VALID_ID :: "ULONG \<Rightarrow> bool" where
  "Q_IS_VALID_ID id' \<longleftrightarrow> id' \<noteq> Q_INVALID_ID \<and> id' \<noteq> 0"

definition Q_IS_VALID_COUNT :: "ULONG \<Rightarrow> bool" where
  "Q_IS_VALID_COUNT count' \<longleftrightarrow> Q_MIN_COUNT \<le> count' \<and> count' \<le> Q_MAX_COUNT"

definition Q_IS_VALID_FLAGS :: "ULONG \<Rightarrow> bool" where
  "Q_IS_VALID_FLAGS flags \<longleftrightarrow>
     flags AND NOT (Q_FIFO OR Q_PRIOR OR Q_GLOBAL OR Q_LOCAL OR Q_PRIBUF) = 0"

text \<open>\<open>Q_BUFFER_FULL\<close>, \<open>Q_BUFFER_EMPTY\<close> and \<open>Q_ADVANCE_INDEX\<close> of \<open>queue.h\<close>.\<close>

definition Q_BUFFER_FULL :: "q_qcb \<Rightarrow> bool" where
  "Q_BUFFER_FULL qcb \<longleftrightarrow>
     buf_nextin qcb + 1 = buf_nextout qcb
     \<or> (buf_nextin qcb = buf_end qcb \<and> buf_nextout qcb = buf_start qcb)"

definition Q_BUFFER_EMPTY :: "q_qcb \<Rightarrow> bool" where
  "Q_BUFFER_EMPTY qcb \<longleftrightarrow> buf_nextin qcb = buf_nextout qcb"

definition Q_ADVANCE_INDEX :: "q_qcb \<Rightarrow> ULONG \<Rightarrow> ULONG" where
  "Q_ADVANCE_INDEX qcb idx = (if idx = buf_end qcb then buf_start qcb else idx + 1)"

subsection \<open>Pool management\<close>

definition q_pool_init :: "q_state \<Rightarrow> q_state" where
  "q_pool_init s =
     s\<lparr> queue_pool := \<lparr> qp_magic = Q_POOL_MAGIC, qp_max_queues = of_nat MAX_Q,
        qp_active_count = 0, qp_next_id = 1, qp_free_list = Some 0, qp_active_list = None,
        queues = (\<lambda>i. if i < MAX_Q - 1
           then q_qcb_zero\<lparr> qcb_next := Some (i + 1), qcb_queue_id := 0,
                  qcb_state := Q_STATE_FREE, qcb_magic := 0 \<rparr>
           else q_qcb_zero) \<rparr> \<rparr>"

definition q_generate_id :: "q_state \<Rightarrow> ULONG \<times> q_state" where
  "q_generate_id s =
     (let id' = qp_next_id (queue_pool s);
          n = id' + 1
      in (id', Q_POOL_upd (\<lambda>p. p\<lparr> qp_next_id := (if n = 0 then 1 else n) \<rparr>) s))"

definition q_pool_alloc :: "q_state \<Rightarrow> ptr \<times> q_state" where
  "q_pool_alloc s =
     (case qp_free_list (queue_pool s) of
        None \<Rightarrow> (None, s)
      | Some i \<Rightarrow>
          (let s1 = Q_POOL_upd (\<lambda>p. p\<lparr> qp_free_list := qcb_next (QCB s i),
                                          qp_active_count := qp_active_count p + 1 \<rparr>) s;
               (id', s2) = q_generate_id s1;
               al = qp_active_list (queue_pool s2);
               s3 = QCB_upd i (\<lambda>_. q_qcb_zero\<lparr> qcb_magic := Q_POOL_MAGIC,
                      qcb_queue_id := id', qcb_state := Q_STATE_ACTIVE, qcb_next := al \<rparr>) s2;
               s4 = (case al of None \<Rightarrow> s3
                     | Some a \<Rightarrow> QCB_upd a (\<lambda>c. c\<lparr> qcb_prev := Some i \<rparr>) s3)
           in (Some i, Q_POOL_upd (\<lambda>p. p\<lparr> qp_active_list := Some i \<rparr>) s4)))"

partial_function (option) q_pool_find_loop :: "q_state \<Rightarrow> ULONG \<Rightarrow> ptr \<Rightarrow> ptr option" where
  "q_pool_find_loop s queue_id qcb =
     (case qcb of
        None \<Rightarrow> Some None
      | Some i \<Rightarrow>
          if qcb_queue_id (QCB s i) = queue_id \<and> Q_IS_VALID_QCB s qcb then Some qcb
          else q_pool_find_loop s queue_id (qcb_next (QCB s i)))"

declare q_pool_find_loop.simps [code]

definition q_pool_find :: "q_state \<Rightarrow> ULONG \<Rightarrow> ptr option" where
  "q_pool_find s queue_id =
     (if \<not> Q_IS_VALID_ID queue_id then Some None
      else q_pool_find_loop s queue_id (qp_active_list (queue_pool s)))"

definition q_name_compare :: "char list \<Rightarrow> char list \<Rightarrow> bool" where
  "q_name_compare name1 name2 \<longleftrightarrow> take 4 name1 = take 4 name2"

definition q_name_copy :: "char list option \<Rightarrow> char list" where
  "q_name_copy src = (case src of None \<Rightarrow> replicate 4 (CHR 0x00) | Some n \<Rightarrow> take 4 n)"

partial_function (option) q_pool_find_by_name_loop :: "q_state \<Rightarrow> char list \<Rightarrow> ptr \<Rightarrow> ptr option" where
  "q_pool_find_by_name_loop s name qcb =
     (case qcb of
        None \<Rightarrow> Some None
      | Some i \<Rightarrow>
          if Q_IS_VALID_QCB s qcb \<and> q_name_compare (qcb_name (QCB s i)) name then Some qcb
          else q_pool_find_by_name_loop s name (qcb_next (QCB s i)))"

declare q_pool_find_by_name_loop.simps [code]

definition q_pool_find_by_name :: "q_state \<Rightarrow> char list \<Rightarrow> ptr option" where
  "q_pool_find_by_name s name = q_pool_find_by_name_loop s name (qp_active_list (queue_pool s))"

subsection \<open>The buffer arena\<close>

definition q_buffer_pool_init :: "q_state \<Rightarrow> q_state" where
  "q_buffer_pool_init s =
     s\<lparr> buffer_pool := q_buffer_pool_zero\<lparr> bp_magic := Q_POOL_MAGIC,
          bp_total_buffers := Q_MAX_BUFFERS, bp_next_available := 0,
          bp_buffers_allocated := 0, bp_allocation_failures := 0 \<rparr> \<rparr>"

text \<open>
  \<open>q_buffer_alloc\<close> is a bump allocator over \<open>next_available\<close>; the sum
  \<open>next_available + count\<close> is a 32-bit sum. The result \<open>Q_MAX_BUFFERS\<close> reports
  failure.
\<close>

definition q_buffer_alloc :: "ULONG \<Rightarrow> q_state \<Rightarrow> ULONG \<times> q_state" where
  "q_buffer_alloc count' s =
     (let pool = buffer_pool s in
      if count' = 0 \<or> bp_total_buffers pool < bp_next_available pool + count'
      then (Q_MAX_BUFFERS,
            Q_BUFFER_POOL_upd (\<lambda>p. p\<lparr> bp_allocation_failures := bp_allocation_failures p + 1 \<rparr>) s)
      else (bp_next_available pool,
            Q_BUFFER_POOL_upd (\<lambda>p. p\<lparr> bp_next_available := bp_next_available p + count',
                                       bp_buffers_allocated := bp_buffers_allocated p + count' \<rparr>) s))"

text \<open>
  \<open>q_buffer_free\<close> only lowers the counter \<open>buffers_allocated\<close> ("Simple
  implementation doesn't actually reclaim memory"); \<open>next_available\<close> stays.
\<close>

definition q_buffer_free :: "ULONG \<Rightarrow> ULONG \<Rightarrow> q_state \<Rightarrow> kerr \<times> q_state" where
  "q_buffer_free start_index count' s =
     (if bp_total_buffers (buffer_pool s) \<le> start_index \<or> count' = 0 then (ERR_BADPARAM, s)
      else (OK, Q_BUFFER_POOL_upd
                  (\<lambda>p. p\<lparr> bp_buffers_allocated := bp_buffers_allocated p - count' \<rparr>) s))"

definition q_buffer_available :: "q_state \<Rightarrow> ULONG" where
  "q_buffer_available s = bp_total_buffers (buffer_pool s) - bp_next_available (buffer_pool s)"

text \<open>\<open>q_buffer_get\<close>: the address of slot \<open>index\<close>, or \<open>NULL\<close> outside the arena.\<close>

definition q_buffer_get :: "q_state \<Rightarrow> ULONG \<Rightarrow> ULONG option" where
  "q_buffer_get s index = (if bp_total_buffers (buffer_pool s) \<le> index then None else Some index)"

subsection \<open>Statistics and critical sections\<close>

definition q_update_statistics :: "ptr \<Rightarrow> ULONG \<Rightarrow> ULONG \<Rightarrow> q_state \<Rightarrow> q_state" where
  "q_update_statistics p operation v s =
     (case p of
        None \<Rightarrow> s
      | Some i \<Rightarrow>
          if \<not> Q_IS_VALID_QCB s p then s
          else if operation = Q_STAT_SEND \<or> operation = Q_STAT_URGENT then
            (QCB_upd i (\<lambda>c. c\<lparr> qcb_total_sent := qcb_total_sent c + 1 \<rparr>) s)
              \<lparr> q_total_messages_sent := q_total_messages_sent s + 1 \<rparr>
          else if operation = Q_STAT_RECEIVE then
            (QCB_upd i (\<lambda>c. c\<lparr> qcb_total_received := qcb_total_received c + 1 \<rparr>) s)
              \<lparr> q_total_messages_received := q_total_messages_received s + 1 \<rparr>
          else if operation = Q_STAT_BROADCAST then
            QCB_upd i (\<lambda>c. c\<lparr> qcb_total_broadcasts := qcb_total_broadcasts c + 1 \<rparr>) s
          else if operation = Q_STAT_OVERFLOW then
            (QCB_upd i (\<lambda>c. c\<lparr> qcb_total_overflows := qcb_total_overflows c + 1 \<rparr>) s)
              \<lparr> q_total_buffer_overflows := q_total_buffer_overflows s + 1 \<rparr>
          else s)"

definition q_disable_interrupts :: "q_state \<Rightarrow> q_state" where
  "q_disable_interrupts s = s\<lparr> q_interrupts_disabled := q_interrupts_disabled s + 1 \<rparr>"

definition q_enable_interrupts :: "q_state \<Rightarrow> q_state" where
  "q_enable_interrupts s =
     (if 0 < q_interrupts_disabled s
      then s\<lparr> q_interrupts_disabled := q_interrupts_disabled s - 1 \<rparr> else s)"

subsection \<open>Message operations\<close>

text \<open>
  \<open>q_message_enqueue(qcb, msg, urgent)\<close>. The indices are moved before the slot is
  looked up, as in the source.
\<close>

definition q_message_enqueue :: "ptr \<Rightarrow> q_msg option \<Rightarrow> ULONG \<Rightarrow> q_state \<Rightarrow> kerr \<times> q_state" where
  "q_message_enqueue p msg urgent s =
     (case (p, msg) of
        (Some i, Some m) \<Rightarrow>
          if \<not> Q_IS_VALID_QCB s p then (ERR_BADPARAM, s)
          else if Q_BUFFER_FULL (QCB s i) then (ERR_QFULL, q_update_statistics p Q_STAT_OVERFLOW 1 s)
          else
            (let qcb = QCB s i;
                 target_index = (if urgent \<noteq> 0
                    then (if buf_nextout qcb = buf_start qcb then buf_end qcb else buf_nextout qcb - 1)
                    else buf_nextin qcb);
                 s1 = (if urgent \<noteq> 0
                    then QCB_upd i (\<lambda>c. c\<lparr> buf_nextout := target_index \<rparr>) s
                    else QCB_upd i (\<lambda>c. c\<lparr> buf_nextin := Q_ADVANCE_INDEX c (buf_nextin c) \<rparr>) s)
             in case q_buffer_get s1 target_index of
                  None \<Rightarrow> (ERR_NOMGB, s1)
                | Some b \<Rightarrow>
                    (let old = buffers (buffer_pool s1); v = take 4 m;
                         s2 = Q_BUFFER_POOL_upd (\<lambda>bp. bp\<lparr> buffers := old(b := v) \<rparr>) s1
                     in (OK, QCB_upd i (\<lambda>c. c\<lparr> qcb_current_messages := qcb_current_messages c + 1,
                            qcb_high_water_mark :=
                              (if qcb_high_water_mark c < qcb_current_messages c + 1
                               then qcb_current_messages c + 1 else qcb_high_water_mark c) \<rparr>) s2)))
      | _ \<Rightarrow> (ERR_BADPARAM, s))"

definition q_message_dequeue :: "ptr \<Rightarrow> q_msg option \<Rightarrow> q_state \<Rightarrow> kerr \<times> q_msg option \<times> q_state" where
  "q_message_dequeue p msg s =
     (case (p, msg) of
        (Some i, Some m) \<Rightarrow>
          if \<not> Q_IS_VALID_QCB s p then (ERR_BADPARAM, msg, s)
          else if Q_BUFFER_EMPTY (QCB s i) then (ERR_NOMSG, msg, s)
          else
            (case q_buffer_get s (buf_nextout (QCB s i)) of
               None \<Rightarrow> (ERR_NOMGB, msg, s)
             | Some b \<Rightarrow>
                 (OK, Some (buffers (buffer_pool s) b),
                  QCB_upd i (\<lambda>c. c\<lparr> buf_nextout := Q_ADVANCE_INDEX c (buf_nextout c),
                                     qcb_current_messages := qcb_current_messages c - 1 \<rparr>) s))
      | _ \<Rightarrow> (ERR_BADPARAM, msg, s))"

definition q_message_count :: "ptr \<Rightarrow> q_state \<Rightarrow> ULONG" where
  "q_message_count p s =
     (case p of None \<Rightarrow> 0
      | Some i \<Rightarrow> if \<not> Q_IS_VALID_QCB s p then 0 else qcb_current_messages (QCB s i))"

definition q_message_space :: "ptr \<Rightarrow> q_state \<Rightarrow> ULONG" where
  "q_message_space p s =
     (case p of None \<Rightarrow> 0
      | Some i \<Rightarrow> if \<not> Q_IS_VALID_QCB s p then 0
                  else qcb_count (QCB s i) - qcb_current_messages (QCB s i))"

subsection \<open>Synchronisation through a semaphore\<close>

text \<open>\<open>sprintf(qcb->semname, "q%02x", queue_id & 0xFF)\<close>: \<open>q\<close>, two lower-case
  hexadecimal digits and the terminating NUL.\<close>

definition hex_digit :: "nat \<Rightarrow> char" where
  "hex_digit n = (if n < 10 then char_of (48 + n) else char_of (87 + n))"

definition q_semname :: "ULONG \<Rightarrow> char list" where
  "q_semname queue_id =
     (let b = unat (queue_id AND 0xFF)
      in [CHR ''q'', hex_digit (b div 16), hex_digit (b mod 16), CHR 0x00])"

definition q_sync_create :: "platform \<Rightarrow> ptr \<Rightarrow> q_world \<Rightarrow> kerr \<times> q_world" where
  "q_sync_create pf p w =
     (case p of
        None \<Rightarrow> (ERR_BADPARAM, w)
      | Some i \<Rightarrow>
          if \<not> Q_IS_VALID_QCB (qw_q w) p then (ERR_BADPARAM, w)
          else
            (let nm = q_semname (qcb_queue_id (QCB (qw_q w) i));
                 q1 = QCB_upd i (\<lambda>c. c\<lparr> qcb_semname := nm \<rparr>) (qw_q w);
                 (error, smid, sm1) = sm_create pf (Some nm) 0 (SM_LOCAL OR SM_FIFO)
                                        (Some (qcb_semid (QCB q1 i))) (qw_sm w)
             in (error, \<lparr> qw_q = QCB_upd i (\<lambda>c. c\<lparr> qcb_semid := cell_value smid 0 \<rparr>) q1,
                         qw_sm = sm1 \<rparr>)))"

definition q_sync_delete :: "ptr \<Rightarrow> q_world \<Rightarrow> (kerr \<times> q_world) option" where
  "q_sync_delete p w =
     (case p of
        None \<Rightarrow> Some (OK, w)
      | Some i \<Rightarrow>
          if \<not> Q_IS_VALID_QCB (qw_q w) p \<or> qcb_semid (QCB (qw_q w) i) = 0 then Some (OK, w)
          else map_option (\<lambda>(e, sm1). (e, w\<lparr> qw_sm := sm1 \<rparr>))
                 (sm_delete (qcb_semid (QCB (qw_q w) i)) (qw_sm w)))"

definition q_sync_wait_message ::
  "platform \<Rightarrow> ptr \<Rightarrow> ULONG \<Rightarrow> ULONG \<Rightarrow> q_world \<Rightarrow> (kerr \<times> q_world) option" where
  "q_sync_wait_message pf p flags timeout w =
     (case p of
        None \<Rightarrow> Some (ERR_BADPARAM, w)
      | Some i \<Rightarrow>
          if \<not> Q_IS_VALID_QCB (qw_q w) p then Some (ERR_BADPARAM, w)
          else
            (let sem_flags = (if flags AND Q_NOWAIT \<noteq> 0 then SM_NOWAIT else SM_WAIT)
             in map_option (\<lambda>(e, sm1). (e, w\<lparr> qw_sm := sm1 \<rparr>))
                  (sm_p pf (qcb_semid (QCB (qw_q w) i)) sem_flags timeout (qw_sm w))))"

definition q_sync_signal_message :: "ptr \<Rightarrow> q_world \<Rightarrow> (kerr \<times> q_world) option" where
  "q_sync_signal_message p w =
     (case p of
        None \<Rightarrow> Some (ERR_BADPARAM, w)
      | Some i \<Rightarrow>
          if \<not> Q_IS_VALID_QCB (qw_q w) p then Some (ERR_BADPARAM, w)
          else map_option (\<lambda>(e, sm1). (e, w\<lparr> qw_sm := sm1 \<rparr>))
                 (sm_v (qcb_semid (QCB (qw_q w) i)) (qw_sm w)))"

subsection \<open>Generic hardware layer\<close>

text \<open>
  The global mutex and the condition variable carry no data; signalling the condition
  changes nothing for a caller that runs alone. \<open>q_hw_generic_receive_message\<close> is in
  the table but no call of \<open>queue.c\<close> reaches it, and \<open>active_waits\<close> changes only
  there.
\<close>

definition q_hw_generic_init :: "platform \<Rightarrow> q_state \<Rightarrow> kerr \<times> q_state" where
  "q_hw_generic_init pf s =
     (if qh_initialized (q_hw s) \<noteq> 0 then (OK, s)
      else if \<not> init_ok pf then (ERR_NORESOURCE, s)
      else (OK, s\<lparr> q_hw := \<lparr> qh_initialized = 1, qh_total_operations = 0,
                              qh_active_waits = 0 \<rparr> \<rparr>))"

definition q_hw_count_operation :: "q_state \<Rightarrow> q_state" where
  "q_hw_count_operation s =
     s\<lparr> q_hw := (q_hw s)\<lparr> qh_total_operations := qh_total_operations (q_hw s) + 1 \<rparr> \<rparr>"

definition q_hw_generic_create_queue :: "ptr \<Rightarrow> q_state \<Rightarrow> kerr \<times> q_state" where
  "q_hw_generic_create_queue p s =
     (if \<not> Q_IS_VALID_QCB s p then (ERR_BADPARAM, s) else (OK, q_hw_count_operation s))"

definition q_hw_generic_delete_queue :: "ptr \<Rightarrow> q_state \<Rightarrow> kerr \<times> q_state" where
  "q_hw_generic_delete_queue p s =
     (if \<not> Q_IS_VALID_QCB s p then (ERR_BADPARAM, s) else (OK, q_hw_count_operation s))"

definition q_hw_generic_send_message :: "ptr \<Rightarrow> q_msg option \<Rightarrow> q_state \<Rightarrow> kerr \<times> q_state" where
  "q_hw_generic_send_message p msg s =
     (if \<not> Q_IS_VALID_QCB s p \<or> msg = None then (ERR_BADPARAM, s)
      else
        (let (error, s1) = q_message_enqueue p msg 0 s
         in if error = OK then (OK, q_hw_count_operation s1) else (error, s1)))"


definition q_hw_init :: "platform \<Rightarrow> q_state \<Rightarrow> kerr \<times> q_state" where
  "q_hw_init pf s = q_hw_generic_init pf (s\<lparr> q_hw_ops := True \<rparr>)"

subsection \<open>Public calls\<close>

definition q_validate_count :: "ULONG \<Rightarrow> kerr" where
  "q_validate_count count' = (if Q_IS_VALID_COUNT count' then OK else ERR_BADPARAM)"

definition q_validate_flags :: "ULONG \<Rightarrow> kerr" where
  "q_validate_flags flags = (if Q_IS_VALID_FLAGS flags then OK else ERR_BADPARAM)"

text \<open>\<open>q_init_once\<close> clears the whole \<open>Q_STATE\<close> before it initialises the pools.\<close>

definition q_init_once :: "platform \<Rightarrow> q_state \<Rightarrow> kerr \<times> q_state" where
  "q_init_once pf s =
     (if q_initialized s \<noteq> 0 then (OK, s)
      else
        (let s0 = q_global_state_zero\<lparr> q_hw := q_hw s, q_magic := Q_POOL_MAGIC \<rparr>;
             s1 = q_pool_init s0;
             s2 = q_buffer_pool_init s1;
             s3 = snd (q_hw_init pf s2)
         in (OK, s3\<lparr> q_total_queues_created := 0, q_total_queues_deleted := 0,
                     q_total_messages_sent := 0, q_total_messages_received := 0,
                     q_total_buffer_overflows := 0, q_initialized := 1 \<rparr>)))"

definition q_init_once_w :: "platform \<Rightarrow> q_world \<Rightarrow> kerr \<times> q_world" where
  "q_init_once_w pf w = (fst (q_init_once pf (qw_q w)), w\<lparr> qw_q := snd (q_init_once pf (qw_q w)) \<rparr>)"

text \<open>
  \<open>q_pool_free\<close>: unlink from the active list, \<open>q_buffer_free\<close> when the ring has more
  than one slot, delete the semaphore, tell the hardware layer, clear the block and push
  it on the free list.
\<close>

definition q_pool_free :: "ptr \<Rightarrow> q_world \<Rightarrow> (kerr \<times> q_world) option" where
  "q_pool_free p w =
     (case p of
        None \<Rightarrow> Some (ERR_BADPARAM, w)
      | Some i \<Rightarrow>
          if \<not> Q_IS_VALID_QCB (qw_q w) p then Some (ERR_BADPARAM, w)
          else
            (let s = qw_q w;
                 nx = qcb_next (QCB s i);
                 pv = qcb_prev (QCB s i);
                 s1 = (case pv of
                         Some b \<Rightarrow> QCB_upd b (\<lambda>c. c\<lparr> qcb_next := nx \<rparr>) s
                       | None \<Rightarrow> Q_POOL_upd (\<lambda>pl. pl\<lparr> qp_active_list := nx \<rparr>) s);
                 s2 = (case qcb_next (QCB s1 i) of
                         Some a \<Rightarrow> QCB_upd a (\<lambda>c. c\<lparr> qcb_prev := qcb_prev (QCB s1 i) \<rparr>) s1
                       | None \<Rightarrow> s1);
                 s3 = (if buf_start (QCB s2 i) \<noteq> buf_end (QCB s2 i)
                       then snd (q_buffer_free (buf_start (QCB s2 i)) (qcb_count (QCB s2 i)) s2)
                       else s2)
             in case q_sync_delete p (w\<lparr> qw_q := s3 \<rparr>) of
                  None \<Rightarrow> None
                | Some (_, w4) \<Rightarrow>
                    (let s4 = qw_q w4;
                         s5 = (if q_hw_ops s4 then snd (q_hw_generic_delete_queue p s4) else s4);
                         s6 = QCB_upd i (\<lambda>_. q_qcb_zero\<lparr> qcb_state := Q_STATE_FREE,
                                qcb_next := qp_free_list (queue_pool s5) \<rparr>) s5;
                         s7 = Q_POOL_upd (\<lambda>pl. pl\<lparr> qp_free_list := Some i,
                                qp_active_count := qp_active_count pl - 1 \<rparr>) s6
                     in Some (OK, w4\<lparr> qw_q := s7 \<rparr>))))"

definition q_create ::
  "platform \<Rightarrow> char list option \<Rightarrow> ULONG \<Rightarrow> ULONG \<Rightarrow> ULONG option \<Rightarrow> q_world
     \<Rightarrow> (kerr \<times> ULONG option \<times> q_world) option" where
  "q_create pf name count' flags qid w0 =
     (let (error0, w) = q_init_once_w pf w0 in
      if error0 \<noteq> OK then Some (error0, qid, w)
      else if qid = None then Some (ERR_BADPARAM, qid, w)
      else if q_validate_count count' \<noteq> OK then Some (q_validate_count count', qid, w)
      else if q_validate_flags flags \<noteq> OK then Some (q_validate_flags flags, qid, w)
      else if q_buffer_available (qw_q w) < count' then Some (ERR_NOMGB, qid, w)
      else
        (case q_pool_alloc (qw_q w) of
           (None, s1) \<Rightarrow> Some (ERR_NOQCB, qid, w\<lparr> qw_q := s1 \<rparr>)
         | (Some i, s1) \<Rightarrow>
             (let (buffer_start, s2) = q_buffer_alloc count' s1 in
              if Q_MAX_BUFFERS \<le> buffer_start
              then map_option (\<lambda>(_, w'). (ERR_NOMGB, qid, w')) (q_pool_free (Some i) (w\<lparr> qw_q := s2 \<rparr>))
              else
                (let s3 = QCB_upd i (\<lambda>c. c\<lparr> qcb_name := q_name_copy name, qcb_count := count',
                            qcb_flags := flags, qcb_current_messages := 0,
                            qcb_high_water_mark := 0,
                            buf_start := buffer_start, buf_end := buffer_start + count' - 1,
                            buf_nextin := buffer_start, buf_nextout := buffer_start \<rparr>) s2;
                     (error, w4) = q_sync_create pf (Some i) (w\<lparr> qw_q := s3 \<rparr>)
                 in if error \<noteq> OK
                    then map_option (\<lambda>(_, w'). (error, qid, w'))
                           (q_pool_free (Some i)
                              (w4\<lparr> qw_q := snd (q_buffer_free buffer_start count' (qw_q w4)) \<rparr>))
                    else
                      (let (herror, s5) = (if q_hw_ops (qw_q w4)
                                           then q_hw_generic_create_queue (Some i) (qw_q w4)
                                           else (OK, qw_q w4))
                       in if herror \<noteq> OK
                          then (case q_sync_delete (Some i) (w4\<lparr> qw_q := s5 \<rparr>) of
                                  None \<Rightarrow> None
                                | Some (_, w6) \<Rightarrow>
                                    map_option (\<lambda>(_, w'). (herror, qid, w'))
                                      (q_pool_free (Some i)
                                         (w6\<lparr> qw_q := snd (q_buffer_free buffer_start count' (qw_q w6)) \<rparr>)))
                          else Some (OK, Some (qcb_queue_id (QCB s5 i)),
                                     w4\<lparr> qw_q := s5\<lparr> q_total_queues_created :=
                                                      q_total_queues_created s5 + 1 \<rparr> \<rparr>))))))"

definition q_delete :: "platform \<Rightarrow> ULONG \<Rightarrow> q_world \<Rightarrow> (kerr \<times> q_world) option" where
  "q_delete pf qid w0 =
     (let w = snd (q_init_once_w pf w0); s = qw_q w in
      case q_pool_find s qid of
        None \<Rightarrow> None
      | Some None \<Rightarrow> Some (ERR_OBJID, w)
      | Some (Some i) \<Rightarrow>
          if qcb_state (QCB s i) \<noteq> Q_STATE_ACTIVE then Some (ERR_OBJDEL, w)
          else
            (let s1 = QCB_upd i (\<lambda>c. c\<lparr> qcb_state := Q_STATE_DELETING \<rparr>) (q_disable_interrupts s)
             in case q_pool_free (Some i) (w\<lparr> qw_q := s1 \<rparr>) of
                  None \<Rightarrow> None
                | Some (_, w2) \<Rightarrow>
                    Some (OK, w2\<lparr> qw_q := q_enable_interrupts
                            ((qw_q w2)\<lparr> q_total_queues_deleted :=
                                          q_total_queues_deleted (qw_q w2) + 1 \<rparr>) \<rparr>)))"

definition q_ident ::
  "platform \<Rightarrow> char list \<Rightarrow> ULONG \<Rightarrow> ULONG option \<Rightarrow> q_world
     \<Rightarrow> (kerr \<times> ULONG option \<times> q_world) option" where
  "q_ident pf name node qid w0 =
     (let w = snd (q_init_once_w pf w0) in
      if qid = None then Some (ERR_BADPARAM, qid, w)
      else
        (case q_pool_find_by_name (qw_q w) name of
           None \<Rightarrow> None
         | Some None \<Rightarrow> Some (ERR_OBJNF, qid, w)
         | Some (Some i) \<Rightarrow> Some (OK, Some (qcb_queue_id (QCB (qw_q w) i)), w)))"

text \<open>The dequeue under the critical section that both paths of \<open>q_receive\<close> share.\<close>

definition q_receive_dequeue :: "nat \<Rightarrow> q_msg option \<Rightarrow> q_state \<Rightarrow> kerr \<times> q_msg option \<times> q_state" where
  "q_receive_dequeue i msg_buf s =
     (let (error, m, s1) = q_message_dequeue (Some i) msg_buf (q_disable_interrupts s);
          s2 = (if error = OK then q_update_statistics (Some i) Q_STAT_RECEIVE 1 s1 else s1)
      in (error, m, q_enable_interrupts s2))"

definition q_receive ::
  "platform \<Rightarrow> ULONG \<Rightarrow> ULONG \<Rightarrow> ULONG \<Rightarrow> q_msg option \<Rightarrow> q_world
     \<Rightarrow> (kerr \<times> q_msg option \<times> q_world) option" where
  "q_receive pf qid flags timeout msg_buf w0 =
     (let w = snd (q_init_once_w pf w0); s = qw_q w in
      if msg_buf = None then Some (ERR_BADPARAM, msg_buf, w)
      else
        (case q_pool_find s qid of
           None \<Rightarrow> None
         | Some None \<Rightarrow> Some (ERR_OBJID, msg_buf, w)
         | Some (Some i) \<Rightarrow>
             if qcb_state (QCB s i) \<noteq> Q_STATE_ACTIVE then Some (ERR_OBJDEL, msg_buf, w)
             else if \<not> Q_BUFFER_EMPTY (QCB s i) then
               (let (error, m, s1) = q_receive_dequeue i msg_buf s
                in Some (error, m, w\<lparr> qw_q := s1 \<rparr>))
             else if flags AND Q_NOWAIT \<noteq> 0 then
               Some (ERR_NOMSG, msg_buf, w\<lparr> qw_q := q_enable_interrupts (q_disable_interrupts s) \<rparr>)
             else
               (case q_sync_wait_message pf (Some i) flags timeout
                       (w\<lparr> qw_q := q_enable_interrupts (q_disable_interrupts s) \<rparr>) of
                  None \<Rightarrow> None
                | Some (error, w1) \<Rightarrow>
                    if error \<noteq> OK then Some (error, msg_buf, w1)
                    else
                      (let (derror, m, s2) = q_receive_dequeue i msg_buf (qw_q w1)
                       in Some (derror, m, w1\<lparr> qw_q := s2 \<rparr>)))))"

definition q_send :: "platform \<Rightarrow> ULONG \<Rightarrow> q_msg option \<Rightarrow> q_world \<Rightarrow> (kerr \<times> q_world) option" where
  "q_send pf qid msg_buf w0 =
     (let w = snd (q_init_once_w pf w0); s = qw_q w in
      if msg_buf = None then Some (ERR_BADPARAM, w)
      else
        (case q_pool_find s qid of
           None \<Rightarrow> None
         | Some None \<Rightarrow> Some (ERR_OBJID, w)
         | Some (Some i) \<Rightarrow>
             if qcb_state (QCB s i) \<noteq> Q_STATE_ACTIVE then Some (ERR_OBJDEL, w)
             else
               (let s1 = q_disable_interrupts s in
                case (if q_hw_ops s1
                      then Some (fst (q_hw_generic_send_message (Some i) msg_buf s1),
                                 w\<lparr> qw_q := snd (q_hw_generic_send_message (Some i) msg_buf s1) \<rparr>)
                      else
                        (let (error, s2) = q_message_enqueue (Some i) msg_buf 0 s1 in
                         if error = OK
                         then map_option (\<lambda>(_, w'). (OK, w'))
                                (q_sync_signal_message (Some i) (w\<lparr> qw_q := s2 \<rparr>))
                         else Some (error, w\<lparr> qw_q := s2 \<rparr>))) of
                  None \<Rightarrow> None
                | Some (error, w3) \<Rightarrow>
                    (let s3 = qw_q w3;
                         s4 = (if error = OK then q_update_statistics (Some i) Q_STAT_SEND 1 s3 else s3)
                     in Some (error, w3\<lparr> qw_q := q_enable_interrupts s4 \<rparr>)))))"

definition q_urgent :: "platform \<Rightarrow> ULONG \<Rightarrow> q_msg option \<Rightarrow> q_world \<Rightarrow> (kerr \<times> q_world) option" where
  "q_urgent pf qid msg_buf w0 =
     (let w = snd (q_init_once_w pf w0); s = qw_q w in
      if msg_buf = None then Some (ERR_BADPARAM, w)
      else
        (case q_pool_find s qid of
           None \<Rightarrow> None
         | Some None \<Rightarrow> Some (ERR_OBJID, w)
         | Some (Some i) \<Rightarrow>
             if qcb_state (QCB s i) \<noteq> Q_STATE_ACTIVE then Some (ERR_OBJDEL, w)
             else
               (let (error, s2) = q_message_enqueue (Some i) msg_buf 1 (q_disable_interrupts s) in
                if error = OK
                then (case q_sync_signal_message (Some i) (w\<lparr> qw_q := s2 \<rparr>) of
                        None \<Rightarrow> None
                      | Some (_, w3) \<Rightarrow>
                          Some (OK, w3\<lparr> qw_q := q_enable_interrupts
                                  (q_update_statistics (Some i) Q_STAT_URGENT 1 (qw_q w3)) \<rparr>))
                else Some (error, w\<lparr> qw_q := q_enable_interrupts s2 \<rparr>))))"



section \<open>Tasks and the scheduler (kernel/sched/task.c, task\_hw\_generic.c)\<close>

definition T_MAX_TASKS :: nat where "T_MAX_TASKS = 64"
definition T_INVALID_ID :: ULONG where "T_INVALID_ID = 0"
definition T_POOL_MAGIC :: ULONG where "T_POOL_MAGIC = 0x5443"
definition T_REG_COUNT :: nat where "T_REG_COUNT = 7"

definition T_STATE_FREE :: ULONG where "T_STATE_FREE = 0"
definition T_STATE_CREATED :: ULONG where "T_STATE_CREATED = 1"
definition T_STATE_READY :: ULONG where "T_STATE_READY = 2"
definition T_STATE_RUNNING :: ULONG where "T_STATE_RUNNING = 3"
definition T_STATE_SUSPENDED :: ULONG where "T_STATE_SUSPENDED = 4"
definition T_STATE_BLOCKED :: ULONG where "T_STATE_BLOCKED = 5"
definition T_STATE_DELETED :: ULONG where "T_STATE_DELETED = 6"

definition T_MIN_PRIORITY :: ULONG where "T_MIN_PRIORITY = 1"
definition T_MAX_PRIORITY :: ULONG where "T_MAX_PRIORITY = 255"
definition T_DEFAULT_PRIORITY :: ULONG where "T_DEFAULT_PRIORITY = 128"

definition T_MIN_STACK_SIZE :: ULONG where "T_MIN_STACK_SIZE = 512"
definition T_MAX_STACK_SIZE :: ULONG where "T_MAX_STACK_SIZE = 65536"
definition MAX_SSTACK :: ULONG where "MAX_SSTACK = 64 * 2000"

text \<open>The mode and flag bits of \<open>gxkernel.h\<close>.\<close>

definition T_NOPREEMPT :: ULONG where "T_NOPREEMPT = 0x00000001"
definition T_PREEMPT :: ULONG where "T_PREEMPT = 0x00000000"
definition T_TSLICE :: ULONG where "T_TSLICE = 0x00000002"
definition T_NOTSLICE :: ULONG where "T_NOTSLICE = 0x00000000"
definition T_NOASR :: ULONG where "T_NOASR = 0x00000004"
definition T_ASR :: ULONG where "T_ASR = 0x00000000"
definition T_NOISR :: ULONG where "T_NOISR = 0x00000100"
definition T_ISR :: ULONG where "T_ISR = 0x00000000"
definition T_NOFPU :: ULONG where "T_NOFPU = 0x00000000"
definition T_FPU :: ULONG where "T_FPU = 0x00000002"

text \<open>\<open>T_GENERIC_CONTEXT\<close>: the two flags the hardware layer keeps for the thread.\<close>

record t_generic_context =
  tc_running :: bool
  tc_suspended :: bool

text \<open>
  \<open>T_TCB\<close>. \<open>tcb_stack_base\<close> says whether the stack pointer is non-\<open>NULL\<close>, and
  \<open>tcb_entry_point\<close> is the address of the entry function. The timing and IPC fields
  (\<open>create_time\<close> ... \<open>cpu_usage\<close>, \<open>event_mask\<close> ... \<open>wait_timeout\<close>,
  \<open>stack_pointer\<close>, \<open>context_size\<close>) are left out: \<open>task.c\<close> only clears them.
\<close>

record t_tcb =
  tcb_magic :: ULONG
  tcb_task_id :: ULONG
  tcb_name :: "char list"
  tcb_state :: ULONG
  tcb_priority :: ULONG
  tcb_stack_base :: bool
  tcb_stack_size :: ULONG
  tcb_stack_used :: ULONG
  tcb_flags :: ULONG
  tcb_mode :: ULONG
  tcb_reg :: "ULONG list"
  tcb_entry_point :: "nat option"
  tcb_args :: "ULONG list"
  tcb_next :: ptr
  tcb_prev :: ptr
  tcb_hw_context :: "t_generic_context option"

record t_pool =
  tp_magic :: ULONG
  tp_max_tasks :: ULONG
  tp_active_count :: ULONG
  tp_next_id :: ULONG
  tp_free_list :: ptr
  tasks :: "nat \<Rightarrow> t_tcb"

record t_scheduler =
  sch_magic :: ULONG
  current_task :: ptr
  ready_lists :: "nat \<Rightarrow> ptr"
  ready_mask :: ULONG
  preemption_enabled :: ULONG
  context_switches :: ULONG
  last_switch_time :: ULONG
  idle_time :: ULONG

record t_hw_generic_state =
  th_initialized :: ULONG
  th_interrupts_enabled :: ULONG
  th_current_context :: ptr
  th_context_switches :: ULONG

record t_state =
  t_pool :: t_pool
  scheduler :: t_scheduler
  t_hw_ops :: bool
  t_initialized :: ULONG
  t_interrupts_disabled :: ULONG
  total_stack_used :: ULONG
  t_hw :: t_hw_generic_state

definition t_tcb_zero :: t_tcb where
  "t_tcb_zero = \<lparr> tcb_magic = 0, tcb_task_id = 0, tcb_name = replicate 4 (CHR 0x00),
     tcb_state = 0, tcb_priority = 0, tcb_stack_base = False, tcb_stack_size = 0,
     tcb_stack_used = 0, tcb_flags = 0, tcb_mode = 0, tcb_reg = replicate 7 0,
     tcb_entry_point = None, tcb_args = replicate 4 0, tcb_next = None, tcb_prev = None,
     tcb_hw_context = None \<rparr>"

definition t_scheduler_zero :: t_scheduler where
  "t_scheduler_zero = \<lparr> sch_magic = 0, current_task = None, ready_lists = (\<lambda>p. None),
     ready_mask = 0, preemption_enabled = 0, context_switches = 0, last_switch_time = 0,
     idle_time = 0 \<rparr>"

text \<open>\<open>T_STATE t_global_state = {0}\<close> and the zeroed \<open>t_hw_generic_state\<close>.\<close>

definition t_global_state_zero :: t_state where
  "t_global_state_zero = \<lparr> t_pool = \<lparr> tp_magic = 0, tp_max_tasks = 0, tp_active_count = 0,
       tp_next_id = 0, tp_free_list = None, tasks = (\<lambda>i. t_tcb_zero) \<rparr>,
     scheduler = t_scheduler_zero, t_hw_ops = False, t_initialized = 0,
     t_interrupts_disabled = 0, total_stack_used = 0,
     t_hw = \<lparr> th_initialized = 0, th_interrupts_enabled = 0, th_current_context = None,
              th_context_switches = 0 \<rparr> \<rparr>"

definition TCB :: "t_state \<Rightarrow> nat \<Rightarrow> t_tcb" where
  "TCB s i = tasks (t_pool s) i"

definition TCB_upd :: "nat \<Rightarrow> (t_tcb \<Rightarrow> t_tcb) \<Rightarrow> t_state \<Rightarrow> t_state" where
  "TCB_upd i f s =
     (let old = tasks (t_pool s); v = f (old i)
      in s\<lparr> t_pool := (t_pool s)\<lparr> tasks := old(i := v) \<rparr> \<rparr>)"

definition T_POOL_upd :: "(t_pool \<Rightarrow> t_pool) \<Rightarrow> t_state \<Rightarrow> t_state" where
  "T_POOL_upd f s = s\<lparr> t_pool := f (t_pool s) \<rparr>"

definition SCHED_upd :: "(t_scheduler \<Rightarrow> t_scheduler) \<Rightarrow> t_state \<Rightarrow> t_state" where
  "SCHED_upd f s = s\<lparr> scheduler := f (scheduler s) \<rparr>"

definition T_IS_VALID_TCB :: "t_state \<Rightarrow> ptr \<Rightarrow> bool" where
  "T_IS_VALID_TCB s p = (case p of None \<Rightarrow> False | Some i \<Rightarrow> tcb_magic (TCB s i) = T_POOL_MAGIC)"

definition T_GET_CURRENT_TASK :: "t_state \<Rightarrow> ptr" where
  "T_GET_CURRENT_TASK s = current_task (scheduler s)"

text \<open>
  The priority macros. \<open>ready_mask\<close> is one \<open>ULONG\<close> and the bit of a level is
  \<open>1UL << index\<close>, which C defines only for an index below the width of the word; the
  statements about the mask below are for priorities under 32, where the shift is
  defined. \<open>T_FIND_HIGHEST_PRIORITY\<close> is \<open>__builtin_ctz(ready_mask)\<close>, the index of the
  lowest set bit, used only on a non-zero mask.
\<close>

definition T_PRIORITY_TO_INDEX :: "ULONG \<Rightarrow> nat" where
  "T_PRIORITY_TO_INDEX pri = (if pri \<le> T_MAX_PRIORITY then unat pri else unat T_MAX_PRIORITY)"

definition T_SET_READY_BIT :: "nat \<Rightarrow> t_state \<Rightarrow> t_state" where
  "T_SET_READY_BIT pri s =
     SCHED_upd (\<lambda>sc. sc\<lparr> ready_mask := ready_mask sc OR push_bit pri 1 \<rparr>) s"

definition T_CLEAR_READY_BIT :: "nat \<Rightarrow> t_state \<Rightarrow> t_state" where
  "T_CLEAR_READY_BIT pri s =
     SCHED_upd (\<lambda>sc. sc\<lparr> ready_mask := ready_mask sc AND NOT (push_bit pri 1) \<rparr>) s"

definition builtin_ctz :: "ULONG \<Rightarrow> nat" where
  "builtin_ctz w = (case find (\<lambda>i. bit w i) [0..<32] of Some i \<Rightarrow> i | None \<Rightarrow> 32)"

definition T_FIND_HIGHEST_PRIORITY :: "t_state \<Rightarrow> nat" where
  "T_FIND_HIGHEST_PRIORITY s = builtin_ctz (ready_mask (scheduler s))"

subsection \<open>Pool management\<close>

definition t_pool_init :: "t_state \<Rightarrow> t_state" where
  "t_pool_init s =
     s\<lparr> t_pool := \<lparr> tp_magic = T_POOL_MAGIC, tp_max_tasks = of_nat T_MAX_TASKS,
        tp_active_count = 0, tp_next_id = 1, tp_free_list = Some 0,
        tasks = (\<lambda>i. if i < T_MAX_TASKS - 1
           then t_tcb_zero\<lparr> tcb_next := Some (i + 1), tcb_task_id := 0,
                  tcb_state := T_STATE_FREE, tcb_magic := 0 \<rparr>
           else t_tcb_zero) \<rparr> \<rparr>"

definition t_generate_id :: "t_state \<Rightarrow> ULONG \<times> t_state" where
  "t_generate_id s =
     (let id' = tp_next_id (t_pool s);
          n = id' + 1
      in (id', T_POOL_upd (\<lambda>p. p\<lparr> tp_next_id := (if n = 0 then 1 else n) \<rparr>) s))"

definition t_pool_alloc :: "t_state \<Rightarrow> ptr \<times> t_state" where
  "t_pool_alloc s =
     (case tp_free_list (t_pool s) of
        None \<Rightarrow> (None, s)
      | Some i \<Rightarrow>
          (let s1 = T_POOL_upd (\<lambda>p. p\<lparr> tp_free_list := tcb_next (TCB s i),
                                          tp_active_count := tp_active_count p + 1 \<rparr>) s;
               (id', s2) = t_generate_id s1
           in (Some i, TCB_upd i (\<lambda>_. t_tcb_zero\<lparr> tcb_magic := T_POOL_MAGIC,
                          tcb_task_id := id', tcb_state := T_STATE_CREATED,
                          tcb_priority := T_DEFAULT_PRIORITY \<rparr>) s2)))"

text \<open>\<open>t_pool_find\<close> scans all 64 blocks in index order.\<close>

definition t_pool_find :: "t_state \<Rightarrow> ULONG \<Rightarrow> ptr" where
  "t_pool_find s task_id =
     (if task_id = T_INVALID_ID then None
      else find (\<lambda>i. tcb_task_id (TCB s i) = task_id \<and> T_IS_VALID_TCB s (Some i))
             [0..<T_MAX_TASKS])"

subsection \<open>The ready lists\<close>

text \<open>
  \<open>t_scheduler_add_ready\<close>: "Add to head of priority list". The block becomes the new
  head of its level's list, in front of the old head.
\<close>

definition t_scheduler_add_ready :: "ptr \<Rightarrow> t_state \<Rightarrow> t_state" where
  "t_scheduler_add_ready p s =
     (case p of
        None \<Rightarrow> s
      | Some i \<Rightarrow>
          if \<not> T_IS_VALID_TCB s p \<or> tcb_state (TCB s i) \<noteq> T_STATE_READY then s
          else
            (let priority = T_PRIORITY_TO_INDEX (tcb_priority (TCB s i));
                 head = ready_lists (scheduler s) priority;
                 s1 = TCB_upd i (\<lambda>c. c\<lparr> tcb_next := head, tcb_prev := None \<rparr>) s;
                 s2 = (case head of
                         Some h \<Rightarrow> TCB_upd h (\<lambda>c. c\<lparr> tcb_prev := Some i \<rparr>) s1
                       | None \<Rightarrow> s1);
                 old = ready_lists (scheduler s2);
                 s3 = SCHED_upd (\<lambda>sc. sc\<lparr> ready_lists := old(priority := Some i) \<rparr>) s2
             in T_SET_READY_BIT priority s3))"

definition t_scheduler_remove_ready :: "ptr \<Rightarrow> t_state \<Rightarrow> t_state" where
  "t_scheduler_remove_ready p s =
     (case p of
        None \<Rightarrow> s
      | Some i \<Rightarrow>
          if \<not> T_IS_VALID_TCB s p then s
          else
            (let priority = T_PRIORITY_TO_INDEX (tcb_priority (TCB s i));
                 nx = tcb_next (TCB s i);
                 old = ready_lists (scheduler s);
                 s1 = (case tcb_prev (TCB s i) of
                         Some b \<Rightarrow> TCB_upd b (\<lambda>c. c\<lparr> tcb_next := nx \<rparr>) s
                       | None \<Rightarrow> SCHED_upd (\<lambda>sc. sc\<lparr> ready_lists := old(priority := nx) \<rparr>) s);
                 s2 = (case tcb_next (TCB s1 i) of
                         Some a \<Rightarrow> TCB_upd a (\<lambda>c. c\<lparr> tcb_prev := tcb_prev (TCB s1 i) \<rparr>) s1
                       | None \<Rightarrow> s1);
                 s3 = TCB_upd i (\<lambda>c. c\<lparr> tcb_next := None, tcb_prev := None \<rparr>) s2
             in if ready_lists (scheduler s3) priority = None
                then T_CLEAR_READY_BIT priority s3 else s3))"

definition t_scheduler_get_highest_ready :: "t_state \<Rightarrow> ptr" where
  "t_scheduler_get_highest_ready s =
     (if ready_mask (scheduler s) = 0 then None
      else ready_lists (scheduler s) (T_FIND_HIGHEST_PRIORITY s))"

subsection \<open>Generic hardware layer\<close>

text \<open>
  Threads, mutexes and signals of the host are outside the model; what is kept is the
  data the layer stores: the two flags of a context and its own counters.
\<close>

definition t_hw_generic_init :: "platform \<Rightarrow> t_state \<Rightarrow> kerr \<times> t_state" where
  "t_hw_generic_init pf s =
     (if th_initialized (t_hw s) \<noteq> 0 then (OK, s)
      else if \<not> init_ok pf then (ERR_NOTSUPPORTED, s)
      else (OK, s\<lparr> t_hw := \<lparr> th_initialized = 1, th_interrupts_enabled = 1,
                              th_current_context = None, th_context_switches = 0 \<rparr> \<rparr>))"

definition t_hw_init :: "platform \<Rightarrow> t_state \<Rightarrow> kerr \<times> t_state" where
  "t_hw_init pf s = t_hw_generic_init pf (s\<lparr> t_hw_ops := True \<rparr>)"

definition t_hw_generic_create_context ::
  "platform \<Rightarrow> ptr \<Rightarrow> nat option \<Rightarrow> t_state \<Rightarrow> kerr \<times> t_state" where
  "t_hw_generic_create_context pf p entry s =
     (case p of
        None \<Rightarrow> (ERR_BADPARAM, s)
      | Some i \<Rightarrow>
          if entry = None then (ERR_BADPARAM, s)
          else if \<not> malloc_ok pf then (ERR_NOMEM, s)
          else if \<not> init_ok pf then (ERR_NOTSUPPORTED, s)
          else (OK, TCB_upd i (\<lambda>c. c\<lparr> tcb_hw_context :=
                      Some \<lparr> tc_running = False, tc_suspended = True \<rparr> \<rparr>) s))"

definition t_hw_generic_switch_context :: "ptr \<Rightarrow> ptr \<Rightarrow> t_state \<Rightarrow> t_state" where
  "t_hw_generic_switch_context old_tcb new_tcb s =
     (case new_tcb of
        None \<Rightarrow> s
      | Some n \<Rightarrow>
          (let s1 = s\<lparr> t_hw := (t_hw s)\<lparr> th_context_switches := th_context_switches (t_hw s) + 1 \<rparr> \<rparr>
           in case tcb_hw_context (TCB s1 n) of
                None \<Rightarrow> s1
              | Some _ \<Rightarrow>
                  (let s2 = (case old_tcb of
                               None \<Rightarrow> s1
                             | Some ot \<Rightarrow>
                                 (case tcb_hw_context (TCB s1 ot) of
                                    None \<Rightarrow> s1
                                  | Some octx \<Rightarrow>
                                      if tc_running octx
                                      then TCB_upd ot (\<lambda>c. c\<lparr> tcb_hw_context :=
                                             Some \<lparr> tc_running = False, tc_suspended = True \<rparr> \<rparr>) s1
                                      else s1));
                       s3 = TCB_upd n (\<lambda>c. c\<lparr> tcb_hw_context :=
                              Some \<lparr> tc_running = True, tc_suspended = False \<rparr> \<rparr>) s2
                   in s3\<lparr> t_hw := (t_hw s3)\<lparr> th_current_context := Some n \<rparr> \<rparr>)))"

definition t_hw_generic_delete_context :: "ptr \<Rightarrow> t_state \<Rightarrow> t_state" where
  "t_hw_generic_delete_context p s =
     (case p of
        None \<Rightarrow> s
      | Some i \<Rightarrow>
          (case tcb_hw_context (TCB s i) of
             None \<Rightarrow> s
           | Some _ \<Rightarrow> TCB_upd i (\<lambda>c. c\<lparr> tcb_hw_context := None \<rparr>) s))"

subsection \<open>Context, stack and interrupt management\<close>

definition t_context_create ::
  "platform \<Rightarrow> ptr \<Rightarrow> nat option \<Rightarrow> ULONG list option \<Rightarrow> t_state \<Rightarrow> kerr \<times> t_state" where
  "t_context_create pf p entry args s =
     (case p of
        None \<Rightarrow> (ERR_BADPARAM, s)
      | Some i \<Rightarrow>
          if \<not> T_IS_VALID_TCB s p \<or> entry = None then (ERR_BADPARAM, s)
          else
            (let s1 = TCB_upd i (\<lambda>c. c\<lparr> tcb_entry_point := entry,
                        tcb_args := (case args of None \<Rightarrow> replicate 4 0 | Some a \<Rightarrow> take 4 a) \<rparr>) s
             in if t_hw_ops s1 then t_hw_generic_create_context pf p entry s1 else (OK, s1)))"

definition t_context_switch :: "ptr \<Rightarrow> ptr \<Rightarrow> t_state \<Rightarrow> t_state" where
  "t_context_switch old_task new_task s =
     (if t_hw_ops s then t_hw_generic_switch_context old_task new_task s else s)"

definition t_context_delete :: "ptr \<Rightarrow> t_state \<Rightarrow> t_state" where
  "t_context_delete p s = (if t_hw_ops s then t_hw_generic_delete_context p s else s)"

definition t_stack_alloc :: "platform \<Rightarrow> ptr \<Rightarrow> ULONG \<Rightarrow> t_state \<Rightarrow> kerr \<times> t_state" where
  "t_stack_alloc pf p size' s =
     (case p of
        None \<Rightarrow> (ERR_BADPARAM, s)
      | Some i \<Rightarrow>
          if \<not> T_IS_VALID_TCB s p \<or> size' < T_MIN_STACK_SIZE then (ERR_BADPARAM, s)
          else if T_MAX_STACK_SIZE < size' then (ERR_TINYSTK, s)
          else if MAX_SSTACK < total_stack_used s + size' then (ERR_NOSTK, s)
          else if \<not> malloc_ok pf then (ERR_NOSTK, s)
          else (OK, (TCB_upd i (\<lambda>c. c\<lparr> tcb_stack_base := True, tcb_stack_size := size',
                                        tcb_stack_used := 0 \<rparr>) s)
                     \<lparr> total_stack_used := total_stack_used s + size' \<rparr>))"

definition t_stack_free :: "ptr \<Rightarrow> t_state \<Rightarrow> t_state" where
  "t_stack_free p s =
     (case p of
        None \<Rightarrow> s
      | Some i \<Rightarrow>
          if T_IS_VALID_TCB s p \<and> tcb_stack_base (TCB s i)
          then (TCB_upd i (\<lambda>c. c\<lparr> tcb_stack_base := False, tcb_stack_size := 0,
                                   tcb_stack_used := 0 \<rparr>) s)
                 \<lparr> total_stack_used := total_stack_used s - tcb_stack_size (TCB s i) \<rparr>
          else s)"

definition t_disable_interrupts :: "t_state \<Rightarrow> ULONG \<times> t_state" where
  "t_disable_interrupts s =
     (let s1 = (if t_hw_ops s
                then s\<lparr> t_hw := (t_hw s)\<lparr> th_interrupts_enabled := 0 \<rparr> \<rparr> else s)
      in (t_interrupts_disabled s,
          s1\<lparr> t_interrupts_disabled := t_interrupts_disabled s1 + 1 \<rparr>))"

definition t_enable_interrupts :: "ULONG \<Rightarrow> t_state \<Rightarrow> t_state" where
  "t_enable_interrupts level s =
     (if 0 < t_interrupts_disabled s then
        (let s1 = s\<lparr> t_interrupts_disabled := t_interrupts_disabled s - 1 \<rparr>
         in if t_interrupts_disabled s1 = 0 \<and> t_hw_ops s1
            then s1\<lparr> t_hw := (t_hw s1)\<lparr> th_interrupts_enabled := 1 \<rparr> \<rparr> else s1)
      else s)"

definition t_pool_free :: "ptr \<Rightarrow> t_state \<Rightarrow> kerr \<times> t_state" where
  "t_pool_free p s =
     (case p of
        None \<Rightarrow> (ERR_BADTCB, s)
      | Some i \<Rightarrow>
          if \<not> T_IS_VALID_TCB s p then (ERR_BADTCB, s)
          else
            (let s1 = t_scheduler_remove_ready p s;
                 s2 = t_stack_free p s1;
                 s3 = t_context_delete p s2;
                 s4 = TCB_upd i (\<lambda>_. t_tcb_zero\<lparr> tcb_state := T_STATE_FREE,
                        tcb_next := tp_free_list (t_pool s3) \<rparr>) s3
             in (OK, T_POOL_upd (\<lambda>pl. pl\<lparr> tp_free_list := Some i,
                                       tp_active_count := tp_active_count pl - 1 \<rparr>) s4)))"

subsection \<open>Scheduling\<close>

definition t_scheduler_init :: "t_state \<Rightarrow> t_state" where
  "t_scheduler_init s =
     s\<lparr> scheduler := t_scheduler_zero\<lparr> sch_magic := T_POOL_MAGIC, current_task := None,
          ready_mask := 0, preemption_enabled := 1, context_switches := 0 \<rparr> \<rparr>"

definition t_scheduler_reschedule :: "t_state \<Rightarrow> t_state" where
  "t_scheduler_reschedule s0 =
     (let current = current_task (scheduler s0);
          (int_level, s) = t_disable_interrupts s0;
          next' = t_scheduler_get_highest_ready s
      in case next' of
           None \<Rightarrow> t_enable_interrupts int_level s
         | Some n \<Rightarrow>
             if current \<noteq> next' then
               (let s1 = SCHED_upd (\<lambda>sc. sc\<lparr> context_switches := context_switches sc + 1,
                                              last_switch_time := 0 \<rparr>) s;
                    s2 = (case current of
                            Some c \<Rightarrow>
                              if tcb_state (TCB s1 c) = T_STATE_RUNNING
                              then t_scheduler_add_ready current
                                     (TCB_upd c (\<lambda>t. t\<lparr> tcb_state := T_STATE_READY \<rparr>) s1)
                              else s1
                          | None \<Rightarrow> s1);
                    s3 = t_scheduler_remove_ready next' s2;
                    s4 = TCB_upd n (\<lambda>t. t\<lparr> tcb_state := T_STATE_RUNNING \<rparr>) s3;
                    s5 = SCHED_upd (\<lambda>sc. sc\<lparr> current_task := next' \<rparr>) s4
                in t_enable_interrupts int_level (t_context_switch current next' s5))
             else t_enable_interrupts int_level s)"

definition t_scheduler_preempt :: "t_state \<Rightarrow> t_state" where
  "t_scheduler_preempt s =
     (if preemption_enabled (scheduler s) \<noteq> 0 then t_scheduler_reschedule s else s)"

definition t_scheduler_yield :: "t_state \<Rightarrow> t_state" where
  "t_scheduler_yield s = t_scheduler_reschedule s"

text \<open>\<open>t_set_state\<close>: a block that becomes \<open>READY\<close> from another state is added to
  its ready list; one that leaves \<open>READY\<close> is removed.\<close>

definition t_set_state :: "ptr \<Rightarrow> ULONG \<Rightarrow> t_state \<Rightarrow> t_state" where
  "t_set_state p new_state s =
     (case p of
        None \<Rightarrow> s
      | Some i \<Rightarrow>
          if \<not> T_IS_VALID_TCB s p then s
          else
            (let old_state = tcb_state (TCB s i);
                 s1 = TCB_upd i (\<lambda>c. c\<lparr> tcb_state := new_state \<rparr>) s
             in if new_state = T_STATE_READY then
                  (if old_state \<noteq> T_STATE_READY then t_scheduler_add_ready p s1 else s1)
                else if new_state = T_STATE_RUNNING \<or> new_state = T_STATE_SUSPENDED
                        \<or> new_state = T_STATE_BLOCKED \<or> new_state = T_STATE_DELETED then
                  (if old_state = T_STATE_READY then t_scheduler_remove_ready p s1 else s1)
                else s1))"

definition t_validate_priority :: "ULONG \<Rightarrow> kerr" where
  "t_validate_priority priority =
     (if T_MIN_PRIORITY \<le> priority \<and> priority \<le> T_MAX_PRIORITY then OK else ERR_PRIOR)"

definition t_validate_flags :: "ULONG \<Rightarrow> kerr" where
  "t_validate_flags flags =
     (let valid_flags = T_PREEMPT OR T_NOPREEMPT OR T_TSLICE OR T_NOTSLICE OR T_ASR OR T_NOASR
                        OR T_FPU OR T_NOFPU OR T_ISR OR T_NOISR
      in if flags AND NOT valid_flags = 0 then OK else ERR_BADPARAM)"

definition t_validate_inputs :: "ULONG \<Rightarrow> ULONG \<Rightarrow> ULONG \<Rightarrow> ULONG \<Rightarrow> kerr" where
  "t_validate_inputs priority sstack ustack flags =
     (if sstack + ustack < T_MIN_STACK_SIZE then ERR_TINYSTK
      else if t_validate_priority priority \<noteq> OK then ERR_PRIOR
      else if t_validate_flags flags \<noteq> OK then ERR_BADPARAM
      else OK)"

definition t_name_copy :: "char list option \<Rightarrow> char list" where
  "t_name_copy src = (case src of None \<Rightarrow> replicate 4 (CHR 0x00) | Some n \<Rightarrow> take 4 n)"

subsection \<open>Public calls\<close>

definition t_init_once :: "platform \<Rightarrow> t_state \<Rightarrow> kerr \<times> t_state" where
  "t_init_once pf s =
     (if t_initialized s \<noteq> 0 then (OK, s)
      else
        (let s1 = t_pool_init s;
             s2 = t_scheduler_init s1;
             s3 = snd (t_hw_init pf s2)
         in (OK, s3\<lparr> t_initialized := 1 \<rparr>)))"

definition t_create ::
  "platform \<Rightarrow> char list option \<Rightarrow> ULONG \<Rightarrow> ULONG \<Rightarrow> ULONG \<Rightarrow> ULONG \<Rightarrow> ULONG option \<Rightarrow> t_state
     \<Rightarrow> kerr \<times> ULONG option \<times> t_state" where
  "t_create pf name prio sstack ustack flags tid s0 =
     (let total_stack = sstack + ustack;
          (error0, s) = t_init_once pf s0
      in if error0 \<noteq> OK then (error0, tid, s)
         else if tid = None then (ERR_BADPARAM, tid, s)
         else if t_validate_inputs prio sstack ustack flags \<noteq> OK
           then (t_validate_inputs prio sstack ustack flags, tid, s)
         else
           (case t_pool_alloc s of
              (None, s1) \<Rightarrow> (ERR_NOTCB, tid, s1)
            | (Some i, s1) \<Rightarrow>
                (let s2 = TCB_upd i (\<lambda>c. c\<lparr> tcb_name := t_name_copy name, tcb_priority := prio,
                            tcb_flags := flags, tcb_mode := 0, tcb_state := T_STATE_CREATED \<rparr>) s1;
                     (error, s3) = t_stack_alloc pf (Some i) total_stack s2
                 in if error \<noteq> OK then (error, tid, snd (t_pool_free (Some i) s3))
                    else (OK, Some (tcb_task_id (TCB s3 i)), s3))))"

definition t_start ::
  "platform \<Rightarrow> ULONG \<Rightarrow> ULONG \<Rightarrow> nat option \<Rightarrow> ULONG list option \<Rightarrow> t_state \<Rightarrow> kerr \<times> t_state" where
  "t_start pf tid mode' start_addr targs s0 =
     (let s = snd (t_init_once pf s0) in
      if start_addr = None then (ERR_BADPARAM, s)
      else
        (case t_pool_find s tid of
           None \<Rightarrow> (ERR_OBJID, s)
         | Some i \<Rightarrow>
             if tcb_state (TCB s i) = T_STATE_FREE then (ERR_OBJDEL, s)
             else if tcb_state (TCB s i) \<noteq> T_STATE_CREATED then (ERR_ACTIVE, s)
             else
               (let (error, s1) = t_context_create pf (Some i) start_addr targs s in
                if error \<noteq> OK then (error, s1)
                else
                  (let s2 = TCB_upd i (\<lambda>c. c\<lparr> tcb_mode := mode' \<rparr>) s1;
                       (int_level, s3) = t_disable_interrupts s2;
                       s4 = t_scheduler_preempt (t_set_state (Some i) T_STATE_READY s3)
                   in (OK, t_enable_interrupts int_level s4)))))"

definition t_suspend :: "platform \<Rightarrow> ULONG \<Rightarrow> t_state \<Rightarrow> kerr \<times> t_state" where
  "t_suspend pf tid s0 =
     (let s = snd (t_init_once pf s0) in
      case t_pool_find s tid of
        None \<Rightarrow> (ERR_OBJID, s)
      | Some i \<Rightarrow>
          if tcb_state (TCB s i) = T_STATE_FREE then (ERR_OBJDEL, s)
          else if tcb_state (TCB s i) = T_STATE_SUSPENDED then (ERR_SUSP, s)
          else
            (let (int_level, s1) = t_disable_interrupts s;
                 s2 = t_set_state (Some i) T_STATE_SUSPENDED s1;
                 s3 = (if Some i = T_GET_CURRENT_TASK s2 then t_scheduler_reschedule s2 else s2)
             in (OK, t_enable_interrupts int_level s3)))"

definition t_resume :: "platform \<Rightarrow> ULONG \<Rightarrow> t_state \<Rightarrow> kerr \<times> t_state" where
  "t_resume pf tid s0 =
     (let s = snd (t_init_once pf s0) in
      case t_pool_find s tid of
        None \<Rightarrow> (ERR_OBJID, s)
      | Some i \<Rightarrow>
          if tcb_state (TCB s i) = T_STATE_FREE then (ERR_OBJDEL, s)
          else if tcb_state (TCB s i) \<noteq> T_STATE_SUSPENDED then (ERR_NOTSUSP, s)
          else
            (let (int_level, s1) = t_disable_interrupts s;
                 s2 = t_scheduler_preempt (t_set_state (Some i) T_STATE_READY s1)
             in (OK, t_enable_interrupts int_level s2)))"

definition t_setpri ::
  "platform \<Rightarrow> ULONG \<Rightarrow> ULONG \<Rightarrow> ULONG option \<Rightarrow> t_state \<Rightarrow> kerr \<times> ULONG option \<times> t_state" where
  "t_setpri pf tid newprio oldprio s0 =
     (let s = snd (t_init_once pf s0) in
      case t_pool_find s tid of
        None \<Rightarrow> (ERR_OBJID, oldprio, s)
      | Some i \<Rightarrow>
          if tcb_state (TCB s i) = T_STATE_FREE then (ERR_OBJDEL, oldprio, s)
          else if t_validate_priority newprio \<noteq> OK then (ERR_SETPRI, oldprio, s)
          else
            (let old' = (if oldprio \<noteq> None then Some (tcb_priority (TCB s i)) else oldprio);
                 (int_level, s1) = t_disable_interrupts s;
                 s2 = (if tcb_state (TCB s1 i) = T_STATE_READY
                       then t_scheduler_add_ready (Some i)
                              (TCB_upd i (\<lambda>c. c\<lparr> tcb_priority := newprio \<rparr>)
                                 (t_scheduler_remove_ready (Some i) s1))
                       else TCB_upd i (\<lambda>c. c\<lparr> tcb_priority := newprio \<rparr>) s1);
                 s3 = t_scheduler_preempt s2
             in (OK, old', t_enable_interrupts int_level s3)))"

text \<open>
  \<open>t_mode(mask, new_mode, old_mode)\<close> of \<open>task.c\<close>, with the tests as written: on
  \<open>T_PREEMPT\<close>, \<open>T_TSLICE\<close>, \<open>T_ASR\<close> and \<open>T_ISR\<close>. \<open>T_MODE_SET\<close> is
  \<open>mode |= m\<close> and \<open>T_MODE_CLEAR\<close> is \<open>mode &= ~m\<close>.
\<close>

definition T_MODE_SET :: "ULONG \<Rightarrow> ULONG \<Rightarrow> ULONG" where
  "T_MODE_SET mode' m = mode' OR m"

definition T_MODE_CLEAR :: "ULONG \<Rightarrow> ULONG \<Rightarrow> ULONG" where
  "T_MODE_CLEAR mode' m = mode' AND NOT m"

definition t_mode_bits :: "ULONG \<Rightarrow> ULONG \<Rightarrow> ULONG \<Rightarrow> ULONG" where
  "t_mode_bits msk new_mode mode0 =
     (let m1 = (if msk AND T_PREEMPT \<noteq> 0
                then (if new_mode AND T_PREEMPT \<noteq> 0 then T_MODE_CLEAR mode0 T_NOPREEMPT
                      else T_MODE_SET mode0 T_NOPREEMPT)
                else mode0);
          m2 = (if msk AND T_TSLICE \<noteq> 0
                then (if new_mode AND T_TSLICE \<noteq> 0 then T_MODE_SET m1 T_TSLICE
                      else T_MODE_CLEAR m1 T_TSLICE)
                else m1);
          m3 = (if msk AND T_ASR \<noteq> 0
                then (if new_mode AND T_ASR \<noteq> 0 then T_MODE_SET m2 T_ASR
                      else T_MODE_CLEAR m2 T_ASR)
                else m2);
          m4 = (if msk AND T_ISR \<noteq> 0
                then (if new_mode AND T_ISR \<noteq> 0 then T_MODE_SET m3 T_ISR
                      else T_MODE_CLEAR m3 T_ISR)
                else m3)
      in m4)"

definition t_mode ::
  "platform \<Rightarrow> ULONG \<Rightarrow> ULONG \<Rightarrow> ULONG option \<Rightarrow> t_state \<Rightarrow> kerr \<times> ULONG option \<times> t_state" where
  "t_mode pf msk new_mode old_mode s0 =
     (let s = snd (t_init_once pf s0) in
      case T_GET_CURRENT_TASK s of
        None \<Rightarrow> (ERR_NOTACTIVE, old_mode, s)
      | Some c \<Rightarrow>
          (OK, (if old_mode \<noteq> None then Some (tcb_mode (TCB s c)) else old_mode),
           TCB_upd c (\<lambda>t. t\<lparr> tcb_mode := t_mode_bits msk new_mode (tcb_mode t) \<rparr>) s))"

subsection \<open>The legacy t\_mode (gxkTask.c)\<close>

text \<open>
  \<open>t_mode\<close> of \<open>gxkTask.c\<close> works on \<open>TaskList[CurrentTask].mode\<close>; it tests the four
  bits \<open>T_NOPREEMPT\<close>, \<open>T_TSLICE\<close>, \<open>T_NOASR\<close>, \<open>T_NOISR\<close> and only ever ORs into
  the mode. It takes the mode and returns the code, the old mode and the new mode.
\<close>

definition gxk_t_mode :: "ULONG \<Rightarrow> ULONG \<Rightarrow> ULONG \<Rightarrow> kerr \<times> ULONG \<times> ULONG" where
  "gxk_t_mode msk new_mode mode0 =
     (let m1 = (if msk AND T_NOPREEMPT \<noteq> 0 then mode0 OR (new_mode AND T_NOPREEMPT) else mode0);
          m2 = (if msk AND T_TSLICE \<noteq> 0 then m1 OR (new_mode AND T_TSLICE) else m1);
          m3 = (if msk AND T_NOASR \<noteq> 0 then m2 OR (new_mode AND T_NOASR) else m2);
          m4 = (if msk AND T_NOISR \<noteq> 0 then m3 OR (new_mode AND T_NOISR) else m3)
      in (OK, mode0, m4))"

subsection \<open>Reading a ready list\<close>

text \<open>
  \<open>tcb_path s p xs\<close>: following \<open>next\<close> from the pointer \<open>p\<close> visits exactly the
  blocks \<open>xs\<close>, in this order, and then reaches \<open>NULL\<close>. With \<open>p\<close> the head of a
  level's ready list, \<open>xs\<close> is that list from head to tail.
\<close>

fun tcb_path :: "t_state \<Rightarrow> ptr \<Rightarrow> nat list \<Rightarrow> bool" where
  "tcb_path s p [] = (p = None)"
| "tcb_path s p (x # xs) = (p = Some x \<and> tcb_path s (tcb_next (TCB s x)) xs)"

section \<open>Concrete inputs\<close>

text \<open>A host on which allocation and initialisation of the primitives succeed.\<close>

definition host :: platform where
  "host = \<lparr> malloc_ok = True, init_ok = True \<rparr>"

text \<open>
  Task 0 has been sent the events \<open>0x3\<close> by \<open>ev_send(0, 0x3)\<close> on the zeroed event
  state.
\<close>

definition ev_pending_3 :: ev_state where
  "ev_pending_3 = snd (ev_send host 0 3 ev_global_state_zero)"

text \<open>
  \<open>sm_create("SEM1", 8, SM_FIFO, &smid)\<close> on the zeroed semaphore state: the semaphore
  with id 1 in slot 0, count 8, ceiling 8.
\<close>

definition sem_at_ceiling :: sm_state where
  "sem_at_ceiling =
     snd (snd (sm_create host (Some ''SEM1'') 8 SM_FIFO (Some 0) sm_global_state_zero))"

text \<open>\<open>sm_create("SEM0", 0, SM_FIFO, &smid)\<close>: a semaphore with no unit available.\<close>

definition empty_sem :: sm_state where
  "empty_sem =
     snd (snd (sm_create host (Some ''SEM0'') 0 SM_FIFO (Some 0) sm_global_state_zero))"

text \<open>The queue system after its one-time initialisation.\<close>

definition q_world_init :: q_world where
  "q_world_init = snd (q_init_once_w host q_world_zero)"

text \<open>
  \<open>q_create("QUE1", 4, Q_FIFO, &qid)\<close> on the initial state: the queue with id 1 in
  slot 0, capacity 4, ring slots 0 to 3.
\<close>

definition q_world_cap4 :: q_world where
  "q_world_cap4 =
     (case q_create host (Some ''QUE1'') 4 Q_FIFO (Some 0) q_world_init of
        Some (_, _, w) \<Rightarrow> w | None \<Rightarrow> q_world_init)"

definition msg_a :: q_msg where "msg_a = [1, 2, 3, 4]"
definition msg_b :: q_msg where "msg_b = [5, 6, 7, 8]"
definition msg_c :: q_msg where "msg_c = [9, 10, 11, 12]"
definition msg_d :: q_msg where "msg_d = [13, 14, 15, 16]"

text \<open>The state after a call that returns, or the state before it.\<close>

definition after :: "('r \<times> q_world) option \<Rightarrow> q_world \<Rightarrow> q_world" where
  "after r w = (case r of Some (_, w') \<Rightarrow> w' | None \<Rightarrow> w)"

definition q_world_sent1 :: q_world where
  "q_world_sent1 = after (q_send host 1 (Some msg_a) q_world_cap4) q_world_cap4"

definition q_world_sent2 :: q_world where
  "q_world_sent2 = after (q_send host 1 (Some msg_b) q_world_sent1) q_world_sent1"

definition q_world_sent3 :: q_world where
  "q_world_sent3 = after (q_send host 1 (Some msg_c) q_world_sent2) q_world_sent2"

definition q_world_received1 :: q_world where
  "q_world_received1 =
     after (map_option snd (q_receive host 1 Q_NOWAIT 0 (Some q_msg_zero) q_world_sent3))
       q_world_sent3"


definition q_world_deleted :: q_world where
  "q_world_deleted = after (q_delete host 1 q_world_cap4) q_world_cap4"

text \<open>
  Four tasks are created on the zeroed task state, in slots 0 to 3 with ids 1 to 4:
  H (priority 1), X (priority 20), B (priority 10) and A (priority 10).
\<close>

definition tasks_created :: t_state where
  "tasks_created =
     snd (snd (t_create host (Some ''TSKA'') 10 1024 1024 0 (Some 0)
     (snd (snd (t_create host (Some ''TSKB'') 10 1024 1024 0 (Some 0)
     (snd (snd (t_create host (Some ''TSKX'') 20 1024 1024 0 (Some 0)
     (snd (snd (t_create host (Some ''TSKH'') 1 1024 1024 0 (Some 0) t_global_state_zero)))))))))))"

text \<open>\<open>t_start\<close> of H alone: H is the current task, with mode 0.\<close>

definition task_h_running :: t_state where
  "task_h_running = snd (t_start host 1 0 (Some 4096) None tasks_created)"

text \<open>Then \<open>t_start\<close> of X, and \<open>t_start\<close> of B: H runs, B waits in the ready list of
  level 10 and X in that of level 20.\<close>

definition task_b_ready :: t_state where
  "task_b_ready =
     snd (t_start host 3 0 (Some 4096) None
       (snd (t_start host 2 0 (Some 4096) None task_h_running)))"

text \<open>A, still only created, is given its context, as \<open>t_start\<close> does before it
  makes the task ready.\<close>

definition task_a_context :: t_state where
  "task_a_context = snd (t_context_create host (Some 3) (Some 4096) None task_b_ready)"

text \<open>A task whose mode has all four mode bits set.\<close>

definition task_h_all_modes :: t_state where
  "task_h_all_modes =
     snd (t_start host 1 (T_NOPREEMPT OR T_TSLICE OR T_NOASR OR T_NOISR) (Some 4096) None
            tasks_created)"

section \<open>Writing one block of a pool\<close>

lemma ECB_upd_alt:
  "ECB_upd i f s =
     s\<lparr> ev_pool := (ev_pool s)\<lparr> event_blocks := (event_blocks (ev_pool s))(i := f (ECB s i)) \<rparr> \<rparr>"
  by (simp add: ECB_upd_def ECB_def Let_def)

lemma SCB_upd_alt:
  "SCB_upd i f s =
     s\<lparr> sm_pool := (sm_pool s)\<lparr> semaphores := (semaphores (sm_pool s))(i := f (SCB s i)) \<rparr> \<rparr>"
  by (simp add: SCB_upd_def SCB_def Let_def)

lemma QCB_upd_alt:
  "QCB_upd i f s =
     s\<lparr> queue_pool := (queue_pool s)\<lparr> queues := (queues (queue_pool s))(i := f (QCB s i)) \<rparr> \<rparr>"
  by (simp add: QCB_upd_def QCB_def Let_def)

lemma TCB_upd_alt:
  "TCB_upd i f s =
     s\<lparr> t_pool := (t_pool s)\<lparr> tasks := (tasks (t_pool s))(i := f (TCB s i)) \<rparr> \<rparr>"
  by (simp add: TCB_upd_def TCB_def Let_def)

section \<open>Events: receiving what is already pending\<close>

text \<open>
  A block that is not in state \<open>EV_STATE_WAITING\<close> never passes
  \<open>ev_check_conditions\<close>, whatever is pending.
\<close>

lemma ev_check_conditions_not_waiting:
  "ecb_state (ECB s i) \<noteq> EV_STATE_WAITING \<Longrightarrow> ev_check_conditions s i = 0"
  by (simp add: ev_check_conditions_def Let_def)

text \<open>
  Hence \<open>ev_receive\<close> with \<open>EV_NOWAIT\<close>, called on an initialised state in which
  the caller's block is not waiting (the state every completed or cancelled wait leaves
  behind), returns \<open>ERR_NOEVS\<close> with \<open>*events_r = 0\<close> and leaves \<open>pending\<close> as it
  was, for every valid request.
\<close>

lemma ev_receive_nowait_never_immediate:
  assumes "ev_initialized s \<noteq> 0"
    and "ecb_state (ECB s 0) \<noteq> EV_STATE_WAITING"
    and "EV_IS_VALID_EVENT_MASK events" and "EV_IS_VALID_FLAGS flags"
    and "flags AND EV_NOWAIT \<noteq> 0"
  shows "\<exists>s'. ev_receive pf events flags timeout (Some r) s = Some (ERR_NOEVS, Some 0, s')
           \<and> ecb_pending_events (ECB s' 0) = ecb_pending_events (ECB s 0)"
  using assms
  by (simp add: ev_receive_def ev_init_once_def ev_validate_events_def ev_validate_flags_def
        ev_pool_get_task_ecb_def ev_get_current_task_id_def EV_IS_VALID_TASK_ID_def MAX_TASK_def
        ev_check_conditions_def Let_def ECB_def ECB_upd_alt)

text \<open>
  C1 (the code at the failing input). After \<open>ev_send(0, 0x3)\<close> the events \<open>0x3\<close>
  are pending for task 0 and satisfy the ALL condition for the request \<open>0x3\<close>. The
  claim has \<open>ev_receive(0x3, EV_NOWAIT | EV_ALL, 0, &out)\<close> return 0 with
  \<open>out = 0x3\<close> and the bits consumed; the code returns \<open>ERR_NOEVS\<close> with
  \<open>out = 0\<close> and the bits still pending.
\<close>

theorem ev_receive_pending_nowait_noevs:
  "ecb_pending_events (ECB ev_pending_3 0) AND 3 = 3
   \<and> map_option fst (ev_receive host 3 (EV_NOWAIT OR EV_ALL) 0 (Some 7) ev_pending_3)
       = Some ERR_NOEVS
   \<and> map_option (fst \<circ> snd) (ev_receive host 3 (EV_NOWAIT OR EV_ALL) 0 (Some 7) ev_pending_3)
       = Some (Some 0)
   \<and> map_option (ecb_pending_events \<circ> (\<lambda>s. ECB s 0) \<circ> snd \<circ> snd)
         (ev_receive host 3 (EV_NOWAIT OR EV_ALL) 0 (Some 7) ev_pending_3)
       = Some 3"
  by code_simp

section \<open>Semaphores: signalling at the ceiling\<close>

lemma sm_pool_find_loop_valid:
  assumes "sm_pool_find_loop s sid p = Some (Some i)"
  shows "scb_magic (SCB s i) = SM_POOL_MAGIC"
proof -
  have "\<forall>j. Some i = Some j \<longrightarrow> scb_magic (SCB s j) = SM_POOL_MAGIC"
    by (rule sm_pool_find_loop.raw_induct
          [where P = "\<lambda>s sid p r. \<forall>j. r = Some j \<longrightarrow> scb_magic (SCB s j) = SM_POOL_MAGIC",
           OF _ assms])
       (auto split: option.splits if_splits simp: SM_IS_VALID_SCB_def)
  then show ?thesis by simp
qed

lemma sm_pool_find_valid:
  "sm_pool_find s sid = Some (Some i) \<Longrightarrow> SM_IS_VALID_SCB s (Some i)"
  by (auto simp: sm_pool_find_def SM_IS_VALID_SCB_def split: if_splits
           dest: sm_pool_find_loop_valid)

text \<open>
  C4 (the code at the failing input). A semaphore created with count 8 under
  \<open>SM_FIFO\<close> has ceiling 8, and nobody waits on it. The claim has \<open>sm_v\<close>
  return success there; \<open>sm_v\<close> returns the error of \<open>sm_increment_count\<close>,
  \<open>ERR_SEMFULL\<close>, with the count still 8.
\<close>

theorem sm_v_at_ceiling_semfull:
  "scb_current_count (SCB sem_at_ceiling 0) = 8
   \<and> scb_maximum_count (SCB sem_at_ceiling 0) = 8
   \<and> scb_wait_count (SCB sem_at_ceiling 0) = 0
   \<and> scb_wait_queue (SCB sem_at_ceiling 0) = []
   \<and> scb_state (SCB sem_at_ceiling 0) = SM_STATE_ACTIVE
   \<and> sm_pool_find sem_at_ceiling 1 = Some (Some 0)
   \<and> map_option fst (sm_v 1 sem_at_ceiling) = Some ERR_SEMFULL
   \<and> ERR_SEMFULL \<noteq> OK
   \<and> map_option (\<lambda>r. scb_current_count (SCB (snd r) 0)) (sm_v 1 sem_at_ceiling) = Some 8"
  by code_simp

section \<open>Semaphores: waiting with timeout 0\<close>

text \<open>
  C7 (the code at the failing input). \<open>sm_p(smid, SM_WAIT, 0)\<close> on a semaphore with no
  unit available, with nobody signalling: the claim has the call wait for ever; the code
  returns \<open>ERR_TIMEOUT\<close>, and the caller is no longer in the wait queue.
\<close>

theorem sm_p_timeout_zero_times_out:
  "sm_check_available (Some 0) empty_sem = 0
   \<and> map_option fst (sm_p host 1 SM_WAIT 0 empty_sem) = Some ERR_TIMEOUT"
  by code_simp

section \<open>Queues: validation of the capacity\<close>

lemma q_init_once_initialized:
  "q_initialized (qw_q w) \<noteq> 0 \<Longrightarrow> q_init_once_w pf w = (OK, w)"
  by (simp add: q_init_once_w_def q_init_once_def)

lemma q_init_once_w_OK: "fst (q_init_once_w pf w) = OK"
  by (simp add: q_init_once_w_def q_init_once_def Let_def)

text \<open>
  C10. For a capacity below 4 or above 1024, \<open>q_create\<close> returns \<open>ERR_BADPARAM\<close>
  and \<open>*qid\<close> keeps its content. The state it leaves is the state after the one-time
  initialisation, so a system that is already initialised is left exactly as it was: no
  control block is taken and the arena is untouched, whatever space is free.
\<close>

theorem q_create_rejects_count:
  assumes "count' < 4 \<or> 1024 < count'"
  shows "q_create pf name count' flags qid w = Some (ERR_BADPARAM, qid, snd (q_init_once_w pf w))
       \<and> (q_initialized (qw_q w) \<noteq> 0 \<longrightarrow> snd (q_init_once_w pf w) = w)"
proof -
  have v: "q_validate_count count' = ERR_BADPARAM"
    using assms
    by (auto simp: q_validate_count_def Q_IS_VALID_COUNT_def Q_MIN_COUNT_def Q_MAX_COUNT_def)
  obtain w1 where e: "q_init_once_w pf w = (OK, w1)"
    using q_init_once_w_OK[of pf w] by (cases "q_init_once_w pf w") simp
  have "q_create pf name count' flags qid w = Some (ERR_BADPARAM, qid, snd (q_init_once_w pf w))"
    using v by (simp add: q_create_def e)
  then show ?thesis by (simp add: q_init_once_initialized)
qed

theorem q_create_rejects_count_witness:
  "((3::ULONG) < 4 \<or> 1024 < (3::ULONG))
   \<and> q_initialized (qw_q q_world_cap4) \<noteq> 0
   \<and> q_buffer_available (qw_q q_world_cap4) = 2044
   \<and> q_create host (Some ''QUE2'') 3 Q_FIFO (Some 0) q_world_cap4
       = Some (ERR_BADPARAM, Some 0, q_world_cap4)"
proof -
  have h: "(3::ULONG) < 4 \<or> 1024 < (3::ULONG)" by simp
  have i: "q_initialized (qw_q q_world_cap4) \<noteq> 0" by code_simp
  have a: "q_buffer_available (qw_q q_world_cap4) = 2044" by code_simp
  show ?thesis
    using q_create_rejects_count[OF h, of host "Some ''QUE2''" Q_FIFO "Some 0" q_world_cap4] i h a
    by simp
qed

section \<open>Queues: broadcast\<close>

lemmas q_upd_defs = QCB_def QCB_upd_alt Q_POOL_upd_def Q_BUFFER_POOL_upd_def






section \<open>Queues: how many sends a queue takes\<close>

text \<open>
  C6 (the code at the failing input). A queue created with capacity 4 takes three
  messages; the fourth \<open>q_send\<close> returns \<open>ERR_QFULL\<close> while the depth is 3. After one
  \<open>q_receive\<close>, which returns the oldest message, the send succeeds.
\<close>

theorem q_send_full_one_early:
  "qcb_count (QCB (qw_q q_world_cap4) 0) = 4
   \<and> map_option fst (q_send host 1 (Some msg_a) q_world_cap4) = Some OK
   \<and> map_option fst (q_send host 1 (Some msg_b) q_world_sent1) = Some OK
   \<and> map_option fst (q_send host 1 (Some msg_c) q_world_sent2) = Some OK
   \<and> qcb_current_messages (QCB (qw_q q_world_sent3) 0) = 3
   \<and> map_option fst (q_send host 1 (Some msg_d) q_world_sent3) = Some ERR_QFULL
   \<and> map_option (fst \<circ> snd) (q_receive host 1 Q_NOWAIT 0 (Some q_msg_zero) q_world_sent3)
       = Some (Some msg_a)
   \<and> map_option fst (q_send host 1 (Some msg_d) q_world_received1) = Some OK"
  by code_simp

section \<open>Queues: the arena across create and delete\<close>

lemma q_create_OK_post:
  assumes "q_initialized (qw_q w) \<noteq> 0"
    and "q_create pf name c flags (Some q0) w = Some (OK, Some qid, w1)"
  shows "\<exists>i. qp_active_list (queue_pool (qw_q w1)) = Some i
     \<and> qcb_magic (QCB (qw_q w1) i) = Q_POOL_MAGIC
     \<and> qcb_queue_id (QCB (qw_q w1) i) = qid
     \<and> qcb_state (QCB (qw_q w1) i) = Q_STATE_ACTIVE
     \<and> buf_start (QCB (qw_q w1) i) = bp_next_available (buffer_pool (qw_q w))
     \<and> buf_end (QCB (qw_q w1) i) = bp_next_available (buffer_pool (qw_q w)) + c - 1
     \<and> qcb_count (QCB (qw_q w1) i) = c
     \<and> buffer_pool (qw_q w1) = (buffer_pool (qw_q w))
          \<lparr> bp_next_available := bp_next_available (buffer_pool (qw_q w)) + c,
            bp_buffers_allocated := bp_buffers_allocated (buffer_pool (qw_q w)) + c \<rparr>
     \<and> q_initialized (qw_q w1) \<noteq> 0
     \<and> 4 \<le> c \<and> c \<le> 1024
     \<and> bp_next_available (buffer_pool (qw_q w)) < Q_MAX_BUFFERS"
  using assms
  apply (simp add: q_create_def q_init_once_initialized q_validate_count_def Q_IS_VALID_COUNT_def
      Q_MIN_COUNT_def Q_MAX_COUNT_def q_validate_flags_def
      split: if_splits prod.splits option.splits)
  apply (auto simp: q_pool_alloc_def q_generate_id_def q_buffer_alloc_def q_sync_create_def
      q_hw_generic_create_queue_def q_hw_count_operation_def Q_IS_VALID_QCB_def q_upd_defs Let_def
      split: if_splits prod.splits option.splits)
  done

lemma q_pool_find_head:
  assumes "qp_active_list (queue_pool s) = Some i"
    and "qcb_magic (QCB s i) = Q_POOL_MAGIC" and "qcb_queue_id (QCB s i) = qid"
  shows "q_pool_find s qid = (if qid = 0 then Some None else Some (Some i))"
  using assms
  by (simp add: q_pool_find_def Q_IS_VALID_ID_def Q_INVALID_ID_def Q_IS_VALID_QCB_def
        q_pool_find_loop.simps[of s qid "Some i"])

lemma q_pool_free_buffer_pool:
  assumes "q_pool_free (Some i) w = Some (e, w')"
    and "qcb_magic (QCB (qw_q w) i) = Q_POOL_MAGIC"
  shows "buffer_pool (qw_q w') =
     (if buf_start (QCB (qw_q w) i) \<noteq> buf_end (QCB (qw_q w) i)
      then buffer_pool (snd (q_buffer_free (buf_start (QCB (qw_q w) i))
                               (qcb_count (QCB (qw_q w) i)) (qw_q w)))
      else buffer_pool (qw_q w))"
  using assms
  apply (simp add: q_pool_free_def Q_IS_VALID_QCB_def Let_def q_sync_delete_def
      split: option.splits prod.splits if_splits)
  apply (auto simp: q_hw_generic_delete_queue_def q_hw_count_operation_def q_buffer_free_def
      Q_IS_VALID_QCB_def q_upd_defs Let_def
      split: if_splits prod.splits option.splits)
  done

text \<open>
  C8 (counterexample). The initialised arena has 2048 slots available; after
  \<open>q_create\<close> with capacity 4 it has 2044, and after the \<open>q_delete\<close> of that queue it
  still has 2044.
\<close>

theorem q_create_delete_arena_counterexample:
  "q_buffer_available (qw_q q_world_init) = 2048
   \<and> map_option fst (q_create host (Some ''QUE1'') 4 Q_FIFO (Some 0) q_world_init) = Some OK
   \<and> map_option (fst \<circ> snd) (q_create host (Some ''QUE1'') 4 Q_FIFO (Some 0) q_world_init)
       = Some (Some 1)
   \<and> q_buffer_available (qw_q q_world_cap4) = 2044
   \<and> map_option fst (q_delete host 1 q_world_cap4) = Some OK
   \<and> q_buffer_available (qw_q q_world_deleted) = 2044"
  by code_simp

text \<open>
  C8 (amended). \<open>q_create\<close> with capacity \<open>c\<close> reserves \<open>c\<close> slots by advancing
  \<open>next_available\<close>; the \<open>q_delete\<close> of that queue lowers the counter
  \<open>buffers_allocated\<close> back by \<open>c\<close> and returns no slot: \<open>next_available\<close> stays
  advanced, so the number of slots available to later \<open>q_create\<close> calls stays lower by
  \<open>c\<close>.
\<close>

theorem q_create_delete_arena:
  assumes init: "q_initialized (qw_q w) \<noteq> 0"
    and total: "bp_total_buffers (buffer_pool (qw_q w)) = Q_MAX_BUFFERS"
    and cr: "q_create pf name c flags (Some q0) w = Some (OK, Some qid, w1)"
    and del: "q_delete pf qid w1 = Some (OK, w2)"
  shows "bp_next_available (buffer_pool (qw_q w2)) = bp_next_available (buffer_pool (qw_q w)) + c
       \<and> q_buffer_available (qw_q w2) = q_buffer_available (qw_q w) - c
       \<and> bp_buffers_allocated (buffer_pool (qw_q w2)) = bp_buffers_allocated (buffer_pool (qw_q w))"
proof -
  from q_create_OK_post[OF init cr] obtain i where
    al: "qp_active_list (queue_pool (qw_q w1)) = Some i"
    and mg: "qcb_magic (QCB (qw_q w1) i) = Q_POOL_MAGIC"
    and qi: "qcb_queue_id (QCB (qw_q w1) i) = qid"
    and st: "qcb_state (QCB (qw_q w1) i) = Q_STATE_ACTIVE"
    and bs: "buf_start (QCB (qw_q w1) i) = bp_next_available (buffer_pool (qw_q w))"
    and be: "buf_end (QCB (qw_q w1) i) = bp_next_available (buffer_pool (qw_q w)) + c - 1"
    and cn: "qcb_count (QCB (qw_q w1) i) = c"
    and bp: "buffer_pool (qw_q w1) = (buffer_pool (qw_q w))
          \<lparr> bp_next_available := bp_next_available (buffer_pool (qw_q w)) + c,
            bp_buffers_allocated := bp_buffers_allocated (buffer_pool (qw_q w)) + c \<rparr>"
    and i1: "q_initialized (qw_q w1) \<noteq> 0"
    and c4: "4 \<le> c" and c1024: "c \<le> 1024"
    and lt: "bp_next_available (buffer_pool (qw_q w)) < Q_MAX_BUFFERS"
    by blast
  have fnd: "q_pool_find (qw_q w1) qid = (if qid = 0 then Some None else Some (Some i))"
    by (rule q_pool_find_head[OF al mg qi])
  have cne: "bp_next_available (buffer_pool (qw_q w)) + c - 1
               \<noteq> bp_next_available (buffer_pool (qw_q w))"
    using c4 by (auto simp: word_le_nat_alt)
  have c0: "c \<noteq> 0" using c4 by (auto simp: word_le_nat_alt)
  define s1 where
    "s1 = QCB_upd i (\<lambda>c. c\<lparr> qcb_state := Q_STATE_DELETING \<rparr>) (q_disable_interrupts (qw_q w1))"
  from del obtain e w3 where
    pf: "q_pool_free (Some i) (w1\<lparr> qw_q := s1 \<rparr>) = Some (e, w3)"
    and w2: "w2 = w3\<lparr> qw_q := q_enable_interrupts
                 ((qw_q w3)\<lparr> q_total_queues_deleted := q_total_queues_deleted (qw_q w3) + 1 \<rparr>) \<rparr>"
    using i1 fnd st
    by (auto simp: q_delete_def q_init_once_initialized Let_def s1_def
             split: if_splits option.splits prod.splits)
  have s1_i: "buf_start (QCB s1 i) = buf_start (QCB (qw_q w1) i)"
     "buf_end (QCB s1 i) = buf_end (QCB (qw_q w1) i)"
     "qcb_count (QCB s1 i) = qcb_count (QCB (qw_q w1) i)"
     "qcb_magic (QCB s1 i) = qcb_magic (QCB (qw_q w1) i)"
     "buffer_pool s1 = buffer_pool (qw_q w1)"
    by (simp_all add: s1_def q_upd_defs q_disable_interrupts_def)
  have "buffer_pool (qw_q w3) =
      buffer_pool (snd (q_buffer_free (buf_start (QCB s1 i)) (qcb_count (QCB s1 i)) s1))"
    using q_pool_free_buffer_pool[OF pf] s1_i mg bs be cne by simp
  then have b3: "buffer_pool (qw_q w3) = (buffer_pool (qw_q w))
          \<lparr> bp_next_available := bp_next_available (buffer_pool (qw_q w)) + c \<rparr>"
    using s1_i bs cn bp total lt c0
    by (auto simp: q_buffer_free_def Q_BUFFER_POOL_upd_def)
  have b2: "buffer_pool (qw_q w2) = buffer_pool (qw_q w3)"
    by (simp add: w2 q_enable_interrupts_def)
  show ?thesis
    by (simp add: b2 b3 q_buffer_available_def)
qed

theorem q_create_delete_arena_witness:
  "q_initialized (qw_q q_world_init) \<noteq> 0
   \<and> bp_total_buffers (buffer_pool (qw_q q_world_init)) = Q_MAX_BUFFERS
   \<and> q_create host (Some ''QUE1'') 4 Q_FIFO (Some 0) q_world_init = Some (OK, Some 1, q_world_cap4)
   \<and> q_delete host 1 q_world_cap4 = Some (OK, q_world_deleted)
   \<and> bp_next_available (buffer_pool (qw_q q_world_init)) = 0
   \<and> bp_next_available (buffer_pool (qw_q q_world_deleted)) = 4
   \<and> bp_buffers_allocated (buffer_pool (qw_q q_world_deleted)) = 0"
proof -
  have h1: "q_initialized (qw_q q_world_init) \<noteq> 0" by code_simp
  have h2: "bp_total_buffers (buffer_pool (qw_q q_world_init)) = Q_MAX_BUFFERS" by code_simp
  have c1: "map_option fst (q_create host (Some ''QUE1'') 4 Q_FIFO (Some 0) q_world_init) = Some OK"
    by code_simp
  have c2: "map_option (fst \<circ> snd) (q_create host (Some ''QUE1'') 4 Q_FIFO (Some 0) q_world_init)
              = Some (Some 1)"
    by code_simp
  have h3: "q_create host (Some ''QUE1'') 4 Q_FIFO (Some 0) q_world_init
              = Some (OK, Some 1, q_world_cap4)"
    using c1 c2
    by (cases "q_create host (Some ''QUE1'') 4 Q_FIFO (Some 0) q_world_init")
       (auto simp: q_world_cap4_def)
  have d1: "map_option fst (q_delete host 1 q_world_cap4) = Some OK" by code_simp
  have h4: "q_delete host 1 q_world_cap4 = Some (OK, q_world_deleted)"
    using d1 by (cases "q_delete host 1 q_world_cap4") (auto simp: q_world_deleted_def after_def)
  have v: "bp_next_available (buffer_pool (qw_q q_world_init)) = 0
           \<and> bp_buffers_allocated (buffer_pool (qw_q q_world_init)) = 0" by code_simp
  show ?thesis
    using q_create_delete_arena[OF h1 h2 h3 h4] h1 h2 h3 h4 v by simp
qed

end
